theory Spec2Isabelle
  imports Main "HOL-Library.AList"
begin

section \<open>Python values, exceptions and responses\<close>

text \<open>
  The client in \<^verbatim>\<open>tap_square/client.py\<close> handles decoded JSON: request bodies,
  response bodies, error lists and the tap's config are Python values built from
  \<^verbatim>\<open>None\<close>, booleans, integers, strings, lists and string-keyed dicts. A dict is an
  association list in insertion order with one entry per key.
\<close>

datatype pyval =
    PNone
  | PBool bool
  | PInt int
  | PStr string
  | PList "pyval list"
  | PDict "(string \<times> pyval) list"

type_synonym dict = "(string \<times> pyval) list"

text \<open>Truth value of a Python object, as \<^verbatim>\<open>if x:\<close> and \<^verbatim>\<open>while x:\<close> test it.\<close>

fun truthy :: "pyval \<Rightarrow> bool" where
  "truthy PNone = False"
| "truthy (PBool b) = b"
| "truthy (PInt i) = (i \<noteq> 0)"
| "truthy (PStr s) = (s \<noteq> [])"
| "truthy (PList xs) = (xs \<noteq> [])"
| "truthy (PDict kvs) = (kvs \<noteq> [])"

text \<open>
  The exceptions that the modelled code raises or lets through. \<^verbatim>\<open>RetryableError\<close> is
  the class declared in the client (\<^verbatim>\<open>class RetryableError(Exception): pass\<close>);
  \<^verbatim>\<open>HTTPError\<close> is the one \<^verbatim>\<open>raise_for_status\<close> raises, which carries the
  response (here: its status code); \<^verbatim>\<open>ConnectionError\<close> stands for a
  \<^verbatim>\<open>RequestException\<close> raised without a response.
\<close>

datatype exn =
    RetryableError pyval
  | RuntimeError pyval
  | HTTPError int
  | ConnectionError
  | TypeError
  | AttributeError
  | KeyError string
  | IndexError
  | ValueError
  | OverflowError
  | OSError

text \<open>The result object of a v2 SDK call (\<^verbatim>\<open>ApiResponse\<close>), as far as the client reads it.\<close>

record response =
  is_error :: bool
  status_code :: int
  errors :: pyval
  body :: pyval

subsection \<open>Strings and dicts\<close>

text \<open>\<^verbatim>\<open>s.startswith(p)\<close> and the substring test \<^verbatim>\<open>needle in s\<close> on strings.\<close>

fun startswith :: "string \<Rightarrow> string \<Rightarrow> bool" where
  "startswith s [] = True"
| "startswith [] (p # ps) = False"
| "startswith (c # s) (p # ps) = (c = p \<and> startswith s ps)"

fun str_contains :: "string \<Rightarrow> string \<Rightarrow> bool" where
  "str_contains needle [] = (needle = [])"
| "str_contains needle (c # s) = (startswith (c # s) needle \<or> str_contains needle s)"

text \<open>
  \<^verbatim>\<open>needle in x\<close> for a string needle: a substring test on a string, an element test
  on a list, a key test on a dict, and \<^verbatim>\<open>TypeError\<close> on a value that is not a container.
\<close>

fun py_in :: "string \<Rightarrow> pyval \<Rightarrow> exn + bool" where
  "py_in needle (PStr s) = Inr (str_contains needle s)"
| "py_in needle (PList xs) = Inr (PStr needle \<in> set xs)"
| "py_in needle (PDict kvs) = Inr (needle \<in> fst ` set kvs)"
| "py_in needle PNone = Inl TypeError"
| "py_in needle (PBool b) = Inl TypeError"
| "py_in needle (PInt i) = Inl TypeError"

text \<open>\<^verbatim>\<open>d.get(k)\<close>, \<^verbatim>\<open>d.get(k, default)\<close> and \<^verbatim>\<open>d[k] = v\<close> on a dict.\<close>

definition dict_get :: "dict \<Rightarrow> string \<Rightarrow> pyval" where
  "dict_get d k = (case map_of d k of None \<Rightarrow> PNone | Some v \<Rightarrow> v)"

definition dict_get_default :: "dict \<Rightarrow> string \<Rightarrow> pyval \<Rightarrow> pyval" where
  "dict_get_default d k dflt = (case map_of d k of None \<Rightarrow> dflt | Some v \<Rightarrow> v)"

fun dict_set :: "dict \<Rightarrow> string \<Rightarrow> pyval \<Rightarrow> dict" where
  "dict_set [] k v = [(k, v)]"
| "dict_set ((k', v') # d) k v = (if k' = k then (k, v) # d else (k', v') # dict_set d k v)"

section \<open>Retry policy\<close>

text \<open>
  \<^verbatim>\<open>should_not_retry(ex)\<close> looks for \<^verbatim>\<open>ex.response.status_code\<close>. Of the exceptions
  above only \<^verbatim>\<open>HTTPError\<close> has a response with a status code: \<^verbatim>\<open>RetryableError\<close> is
  a bare \<^verbatim>\<open>Exception\<close> subclass constructed from the error message alone, and a
  \<^verbatim>\<open>RequestException\<close> without a response has \<^verbatim>\<open>response = None\<close>.
\<close>

fun response_status_code :: "exn \<Rightarrow> int option" where
  "response_status_code (HTTPError st) = Some st"
| "response_status_code _ = None"

definition should_not_retry :: "exn \<Rightarrow> bool" where
  "should_not_retry ex =
     (case response_status_code ex of
        Some st \<Rightarrow> st = 400 \<or> st = 401
      | None \<Rightarrow> False)"

text \<open>
  The decorator \<^verbatim>\<open>backoff.on_exception(backoff.expo, E, max_time=600, giveup=g)\<close>
  (a third-party library): the target is called; an exception that is not an instance of
  \<^verbatim>\<open>E\<close> propagates; one that is propagates as well when \<^verbatim>\<open>g\<close> accepts it or the
  time budget is used up, and otherwise the target is called again after a wait. The
  wall-clock budget is abstracted to the number \<open>n\<close> of retries it still allows (waits
  are random and calls take time, so the code does not determine it). The result comes
  with the number of calls made and the state of the world after the last one.
\<close>

primrec on_exception ::
  "(exn \<Rightarrow> bool) \<Rightarrow> (exn \<Rightarrow> bool) \<Rightarrow> ('w \<Rightarrow> (exn + 'a) \<times> 'w) \<Rightarrow> nat \<Rightarrow> 'w
     \<Rightarrow> (exn + 'a) \<times> nat \<times> 'w" where
  "on_exception caught giveup target 0 w =
     (case target w of (r, w') \<Rightarrow> (r, 1, w'))"
| "on_exception caught giveup target (Suc n) w =
     (case target w of
        (Inr ret, w') \<Rightarrow> (Inr ret, 1, w')
      | (Inl e, w') \<Rightarrow>
          if caught e \<and> \<not> giveup e
          then (case on_exception caught giveup target n w' of
                  (r, k, w'') \<Rightarrow> (r, Suc k, w''))
          else (Inl e, 1, w'))"

fun is_RetryableError :: "exn \<Rightarrow> bool" where
  "is_RetryableError (RetryableError m) = True"
| "is_RetryableError _ = False"

fun is_RequestException :: "exn \<Rightarrow> bool" where
  "is_RequestException (HTTPError st) = True"
| "is_RequestException ConnectionError = True"
| "is_RequestException _ = False"

definition service_unavailable :: string where
  "service_unavailable = ''Service Unavailable''"

definition upstream_error :: string where
  "upstream_error = ''upstream connect error or disconnect/reset before headers''"

definition cf_error_1101 :: string where
  \<open>cf_error_1101 = ''<span class="cf-error-code">1101</span>''\<close>

definition doctype_html :: string where
  "doctype_html = ''<!DOCTYPE html>''"

text \<open>
  The error message of an error result: \<^verbatim>\<open>result.errors if result.errors else result.body\<close>.
\<close>

definition error_message_of :: "response \<Rightarrow> pyval" where
  "error_message_of result = (if truthy (errors result) then errors result else body result)"

text \<open>
  The five conditions of \<^verbatim>\<open>_retryable_v2_method\<close>, evaluated in the source's order;
  the first three are \<^verbatim>\<open>in\<close> tests and raise on a message that is no container.
\<close>

definition retryable_conditions :: "response \<Rightarrow> exn + bool" where
  "retryable_conditions result =
     (let error_message = error_message_of result in
      case py_in service_unavailable error_message of
        Inl e \<Rightarrow> Inl e
      | Inr is_service_unavailable \<Rightarrow>
      (case py_in upstream_error error_message of
        Inl e \<Rightarrow> Inl e
      | Inr is_upstream_error \<Rightarrow>
      (case py_in cf_error_1101 error_message of
        Inl e \<Rightarrow> Inl e
      | Inr is_cf_error_1101 \<Rightarrow>
        (let is_html_error =
               (case error_message of PStr s \<Rightarrow> startswith s doctype_html | _ \<Rightarrow> False);
             is_status_429_or_500 = (status_code result = 429 \<or> status_code result \<ge> 500)
         in Inr (is_service_unavailable \<or> is_upstream_error \<or> is_cf_error_1101
                 \<or> is_html_error \<or> is_status_429_or_500)))))"

text \<open>
  The undecorated body of \<^verbatim>\<open>_retryable_v2_method\<close>: one call of the request method,
  then the classification of an error result. The request method is a call into the
  world \<open>'w\<close> (the server and whatever else answers); it may itself raise.
\<close>

definition v2_method ::
  "('b \<Rightarrow> 'w \<Rightarrow> (exn + response) \<times> 'w) \<Rightarrow> 'b \<Rightarrow> 'w \<Rightarrow> (exn + response) \<times> 'w" where
  "v2_method request_method bdy w =
     (case request_method bdy w of
        (Inl e, w') \<Rightarrow> (Inl e, w')
      | (Inr result, w') \<Rightarrow>
          if is_error result
          then (case retryable_conditions result of
                  Inl e \<Rightarrow> (Inl e, w')
                | Inr retryable \<Rightarrow>
                    if retryable then (Inl (RetryableError (error_message_of result)), w')
                    else (Inl (RuntimeError (error_message_of result)), w'))
          else (Inr result, w'))"

definition retryable_v2_method ::
  "nat \<Rightarrow> ('b \<Rightarrow> 'w \<Rightarrow> (exn + response) \<times> 'w) \<Rightarrow> 'b \<Rightarrow> 'w
     \<Rightarrow> (exn + response) \<times> nat \<times> 'w" where
  "retryable_v2_method max_time request_method bdy =
     on_exception is_RetryableError should_not_retry (v2_method request_method bdy) max_time"

text \<open>
  The result of \<^verbatim>\<open>session.get\<close> (a \<^verbatim>\<open>requests.Response\<close>): status, headers (keys in
  lower case, as the case-insensitive header dict finds them) and the decoded JSON.
\<close>

record http_response =
  http_status :: int
  headers :: "(string \<times> string) list"
  json :: pyval

text \<open>\<^verbatim>\<open>result.raise_for_status()\<close>: an \<^verbatim>\<open>HTTPError\<close> carrying the response for 4xx and 5xx.\<close>

definition raise_for_status :: "http_response \<Rightarrow> exn + unit" where
  "raise_for_status result =
     (if 400 \<le> http_status result \<and> http_status result < 600
      then Inl (HTTPError (http_status result)) else Inr ())"

definition v1_method ::
  "(string \<Rightarrow> dict \<Rightarrow> 'w \<Rightarrow> (exn + http_response) \<times> 'w) \<Rightarrow> string \<Rightarrow> dict \<Rightarrow> 'w
     \<Rightarrow> (exn + http_response) \<times> 'w" where
  "v1_method session_get url params w =
     (case session_get url params w of
        (Inl e, w') \<Rightarrow> (Inl e, w')
      | (Inr result, w') \<Rightarrow>
          (case raise_for_status result of
             Inl e \<Rightarrow> (Inl e, w')
           | Inr u \<Rightarrow> (Inr result, w')))"

definition retryable_v1_method ::
  "nat \<Rightarrow> (string \<Rightarrow> dict \<Rightarrow> 'w \<Rightarrow> (exn + http_response) \<times> 'w) \<Rightarrow> string \<Rightarrow> dict \<Rightarrow> 'w
     \<Rightarrow> (exn + http_response) \<times> nat \<times> 'w" where
  "retryable_v1_method max_time session_get url params =
     on_exception is_RequestException should_not_retry (v1_method session_get url params) max_time"

section \<open>Batch token of a v1 response\<close>

text \<open>
  \<^verbatim>\<open>get_batch_token_from_headers\<close> calls three library functions:
  \<^verbatim>\<open>requests.utils.parse_header_links\<close>, \<^verbatim>\<open>urllib.parse.urlparse\<close> (of whose result
  only \<^verbatim>\<open>.query\<close> is read) and \<^verbatim>\<open>urllib.parse.parse_qs\<close>. They are arguments of the
  model (\<open>links_of\<close>, \<open>query_of\<close>, \<open>qs_of\<close>), so what is proved holds for whatever they
  compute. Subscripting follows Python: \<^verbatim>\<open>[0]\<close> on an empty list is an
  \<^verbatim>\<open>IndexError\<close>, a missing key a \<^verbatim>\<open>KeyError\<close>.
\<close>

definition get_batch_token_from_headers ::
  "(string \<Rightarrow> (string \<times> string) list list) \<Rightarrow> (string \<Rightarrow> string)
     \<Rightarrow> (string \<Rightarrow> (string \<times> string list) list)
     \<Rightarrow> (string \<times> string) list \<Rightarrow> exn + string option" where
  "get_batch_token_from_headers links_of query_of qs_of hdrs =
     (case map_of hdrs ''link'' of
        None \<Rightarrow> Inr None
      | Some link \<Rightarrow>
          if link = [] then Inr None
          else (case links_of link of
                  [] \<Rightarrow> Inl IndexError
                | l # ls \<Rightarrow>
                    (case map_of l ''url'' of
                       None \<Rightarrow> Inl (KeyError ''url'')
                     | Some batch_token_url \<Rightarrow>
                         (let parsed_query = qs_of (query_of batch_token_url) in
                          case map_of parsed_query ''batch_token'' of
                            None \<Rightarrow> Inl (KeyError ''batch_token'')
                          | Some [] \<Rightarrow> Inl IndexError
                          | Some (v # vs) \<Rightarrow> Inr (Some v)))))"

subsection \<open>The library functions on well-formed input\<close>

text \<open>
  Executable models of the three library functions, used to run the function on concrete
  headers. \<open>parse_header_links\<close> follows the \<^verbatim>\<open>requests\<close> source: strip blanks and
  quotes, split at \<^verbatim>\<open>, *<\<close>, cut each piece at its first semicolon, strip the URL, then
  read \<^verbatim>\<open>key=value\<close> parameters until one is not of that shape.
\<close>

fun lstrip :: "char list \<Rightarrow> string \<Rightarrow> string" where
  "lstrip cs [] = []"
| "lstrip cs (c # s) = (if c \<in> set cs then lstrip cs s else c # s)"

definition strip :: "char list \<Rightarrow> string \<Rightarrow> string" where
  "strip cs s = rev (lstrip cs (rev (lstrip cs s)))"

text \<open>\<^verbatim>\<open>s.split(c)\<close>: the pieces between the occurrences of a character.\<close>

fun split_on :: "char \<Rightarrow> string \<Rightarrow> string list" where
  "split_on c [] = [[]]"
| "split_on c (x # s) =
     (if x = c then [] # split_on c s
      else (case split_on c s of [] \<Rightarrow> [[x]] | p # ps \<Rightarrow> (x # p) # ps))"

text \<open>\<^verbatim>\<open>s.split(c, 1)\<close> when \<open>c\<close> occurs: the text before and after its first occurrence.\<close>

fun split_first :: "char \<Rightarrow> string \<Rightarrow> (string \<times> string) option" where
  "split_first c [] = None"
| "split_first c (x # s) =
     (if x = c then Some ([], s)
      else (case split_first c s of None \<Rightarrow> None | Some (a, b) \<Rightarrow> Some (x # a, b)))"

text \<open>
  \<^verbatim>\<open>re.split(", *<", value)\<close>: \<open>cur\<close> is the piece being read, \<open>pend\<close> a comma and the
  blanks after it that may still turn out to be a separator.
\<close>

fun re_split_links :: "string \<Rightarrow> string option \<Rightarrow> string \<Rightarrow> string list" where
  "re_split_links cur None [] = [cur]"
| "re_split_links cur (Some pend) [] = [cur @ pend]"
| "re_split_links cur None (c # s) =
     (if c = CHR '','' then re_split_links cur (Some [c]) s
      else re_split_links (cur @ [c]) None s)"
| "re_split_links cur (Some pend) (c # s) =
     (if c = CHR ''<'' then cur # re_split_links [] None s
      else if c = CHR '' '' then re_split_links cur (Some (pend @ [c])) s
      else if c = CHR '','' then re_split_links (cur @ pend) (Some [c]) s
      else re_split_links (cur @ pend @ [c]) None s)"

definition replace_chars :: "char list" where
  "replace_chars = [CHR '' '', CHR 0x27, CHR 0x22]"

fun link_params :: "(string \<times> string) list \<Rightarrow> string list \<Rightarrow> (string \<times> string) list" where
  "link_params link [] = link"
| "link_params link (param # params) =
     (case split_on CHR ''='' param of
        [key, val] \<Rightarrow>
          link_params (AList.update (strip replace_chars key) (strip replace_chars val) link) params
      | _ \<Rightarrow> link)"

definition parse_link :: "string \<Rightarrow> (string \<times> string) list" where
  "parse_link val =
     (case split_first CHR '';'' val of
        None \<Rightarrow> link_params [(''url'', strip (''<>'' @ replace_chars) val)] (split_on CHR '';'' [])
      | Some (url, params) \<Rightarrow>
          link_params [(''url'', strip (''<>'' @ replace_chars) url)] (split_on CHR '';'' params))"

definition parse_header_links :: "string \<Rightarrow> (string \<times> string) list list" where
  "parse_header_links val =
     (let val' = strip replace_chars val
      in if val' = [] then [] else map parse_link (re_split_links [] None val'))"

text \<open>
  The \<^verbatim>\<open>query\<close> component of a URL: what stands between the first \<^verbatim>\<open>?\<close> and the
  fragment.
\<close>

definition urlparse_query :: "string \<Rightarrow> string" where
  "urlparse_query url =
     (let no_fragment = (case split_first CHR ''#'' url of None \<Rightarrow> url | Some (a, b) \<Rightarrow> a)
      in case split_first CHR ''?'' no_fragment of None \<Rightarrow> [] | Some (a, q) \<Rightarrow> q)"

text \<open>
  \<^verbatim>\<open>parse_qs\<close>: the fields between \<^verbatim>\<open>&\<close>, each cut at its first \<^verbatim>\<open>=\<close>; fields with
  no \<^verbatim>\<open>=\<close> or a blank value are dropped; the values of one name are collected in order.
  A \<^verbatim>\<open>+\<close> is a blank; percent escapes are left as they are (this model does not decode
  them).
\<close>

definition plus_to_space :: "string \<Rightarrow> string" where
  "plus_to_space s = map (\<lambda>c. if c = CHR ''+'' then CHR '' '' else c) s"

fun qs_add :: "string \<Rightarrow> string \<Rightarrow> (string \<times> string list) list \<Rightarrow> (string \<times> string list) list" where
  "qs_add k v [] = [(k, [v])]"
| "qs_add k v ((k', vs) # d) = (if k' = k then (k', vs @ [v]) # d else (k', vs) # qs_add k v d)"

fun parse_qsl :: "string list \<Rightarrow> (string \<times> string list) list \<Rightarrow> (string \<times> string list) list" where
  "parse_qsl [] acc = acc"
| "parse_qsl (name_value # rest) acc =
     (case split_first CHR ''='' name_value of
        None \<Rightarrow> parse_qsl rest acc
      | Some (name, val) \<Rightarrow>
          if val = [] then parse_qsl rest acc
          else parse_qsl rest (qs_add (plus_to_space name) (plus_to_space val) acc))"

definition parse_qs :: "string \<Rightarrow> (string \<times> string list) list" where
  "parse_qs qs = parse_qsl (split_on CHR ''&'' qs) []"

section \<open>Credential manager\<close>

text \<open>
  Points in time are counted in microseconds (the resolution of \<^verbatim>\<open>datetime\<close>); the
  difference of two is a \<^verbatim>\<open>timedelta\<close>, whose \<^verbatim>\<open>.days\<close> is the number of whole days
  in it, rounded down (a \<^verbatim>\<open>timedelta\<close> is normalised to days plus a non-negative
  rest).
\<close>

definition REFRESH_TOKEN_BEFORE :: int where
  "REFRESH_TOKEN_BEFORE = 22"

definition usec_per_day :: int where
  "usec_per_day = 86400000000"

definition timedelta_days :: "int \<Rightarrow> int" where
  "timedelta_days delta = delta div usec_per_day"

text \<open>\<^verbatim>\<open>x[k]\<close> for a string key: only a dict can be subscripted by one.\<close>

fun py_getitem :: "pyval \<Rightarrow> string \<Rightarrow> exn + pyval" where
  "py_getitem (PDict d) k = (case map_of d k of None \<Rightarrow> Inl (KeyError k) | Some v \<Rightarrow> Inr v)"
| "py_getitem _ k = Inl TypeError"

text \<open>
  The OAuth endpoints of the SDK client, by environment. \<open>retrieve_token_status env t\<close>
  is the answer to the authorization header \<^verbatim>\<open>f"Bearer {t}"\<close>; \<open>obtain_token env b\<close>
  the answer to the refresh request \<open>b\<close>.
\<close>

record o_auth =
  retrieve_token_status :: "string \<Rightarrow> pyval \<Rightarrow> response"
  obtain_token :: "string \<Rightarrow> dict \<Rightarrow> response"

text \<open>
  \<^verbatim>\<open>require_new_access_token(access_token, client)\<close>. The parser
  \<^verbatim>\<open>singer.utils.strptime_with_tz\<close> and the reading \<open>now\<close> of the clock
  (\<^verbatim>\<open>utils.now()\<close>) are arguments; \<open>client\<close> is the token status call of the client.
\<close>

definition require_new_access_token ::
  "(pyval \<Rightarrow> exn + int) \<Rightarrow> int \<Rightarrow> pyval \<Rightarrow> (pyval \<Rightarrow> response) \<Rightarrow> exn + bool" where
  "require_new_access_token strptime_with_tz now access_token client =
     (if \<not> truthy access_token then Inr True
      else
        (let resp = client access_token in
         if is_error resp then Inr True
         else
           (case py_getitem (body resp) ''expires_at'' of
              Inl e \<Rightarrow> Inl e
            | Inr expires_at \<Rightarrow>
                (case strptime_with_tz expires_at of
                   Inl e \<Rightarrow> Inl e
                 | Inr token_expiry_date \<Rightarrow>
                     Inr (timedelta_days (token_expiry_date - now) \<le> REFRESH_TOKEN_BEFORE)))))"

text \<open>
  The config is a dict object that the caller and the client share, and the config file
  is written as a side effect, so both live in an explicit state: the dict each
  reference points to, the JSON document each path holds, and the paths that cannot be
  opened for writing.
\<close>

record store =
  heap :: "nat \<Rightarrow> dict"
  files :: "string \<Rightarrow> dict option"
  unwritable :: "string set"

text \<open>\<^verbatim>\<open>d.update(data)\<close>: every item of \<open>data\<close> is assigned in turn.\<close>

fun dict_update :: "dict \<Rightarrow> dict \<Rightarrow> dict" where
  "dict_update d [] = d"
| "dict_update d ((k, v) # kvs) = dict_update (dict_set d k v) kvs"

text \<open>
  \<^verbatim>\<open>write_config(config, config_path, data)\<close>: the dict behind \<open>config\<close> is updated,
  then the file is opened and the updated dict dumped into it; the reference it was
  given is what it returns. A path that cannot be opened raises after the update.
\<close>

definition write_config :: "nat \<Rightarrow> string \<Rightarrow> dict \<Rightarrow> store \<Rightarrow> (exn + nat) \<times> store" where
  "write_config config config_path data st =
     (let st1 = st\<lparr>heap := (heap st)(config := dict_update (heap st config) data)\<rparr>
      in if config_path \<in> unwritable st1 then (Inl OSError, st1)
         else (Inr config, st1\<lparr>files := (files st1)(config_path \<mapsto> heap st1 config)\<rparr>))"

text \<open>
  The client object. \<^verbatim>\<open>_get_access_token\<close> runs inside the constructor, before
  \<^verbatim>\<open>_access_token\<close> is assigned, and reads the other four attributes.
\<close>

record square_client =
  refresh_token :: pyval
  client_id :: pyval
  client_secret :: pyval
  environment :: string
  access_token :: pyval

definition get_access_token ::
  "(pyval \<Rightarrow> exn + int) \<Rightarrow> int \<Rightarrow> o_auth \<Rightarrow> square_client \<Rightarrow> nat \<Rightarrow> string \<Rightarrow> store
     \<Rightarrow> (exn + pyval) \<times> store" where
  "get_access_token strptime_with_tz now sdk self config config_path st =
     (let token = dict_get (heap st config) ''access_token'' in
      case require_new_access_token strptime_with_tz now token
             (retrieve_token_status sdk (environment self)) of
        Inl e \<Rightarrow> (Inl e, st)
      | Inr False \<Rightarrow> (Inr token, st)
      | Inr True \<Rightarrow>
          (let bdy = [(''client_id'', client_id self),
                      (''client_secret'', client_secret self),
                      (''grant_type'', PStr ''refresh_token''),
                      (''refresh_token'', refresh_token self)];
               result = obtain_token sdk (environment self) bdy
           in if is_error result then (Inl (RuntimeError (error_message_of result)), st)
              else
                (case py_getitem (body result) ''access_token'' of
                   Inl e \<Rightarrow> (Inl e, st)
                 | Inr new_token \<Rightarrow>
                     (case py_getitem (body result) ''refresh_token'' of
                        Inl e \<Rightarrow> (Inl e, st)
                      | Inr new_refresh \<Rightarrow>
                          (case write_config config config_path
                                  [(''access_token'', new_token), (''refresh_token'', new_refresh)] st of
                             (Inl e, st') \<Rightarrow> (Inl e, st')
                           | (Inr c, st') \<Rightarrow> (Inr new_token, st'))))))"

text \<open>
  \<^verbatim>\<open>SquareClient.__init__(config, config_path)\<close>: three keys the config must have, the
  environment, then the access token.
\<close>

definition dict_item :: "dict \<Rightarrow> string \<Rightarrow> exn + pyval" where
  "dict_item d k = (case map_of d k of None \<Rightarrow> Inl (KeyError k) | Some v \<Rightarrow> Inr v)"

definition init ::
  "(pyval \<Rightarrow> exn + int) \<Rightarrow> int \<Rightarrow> o_auth \<Rightarrow> nat \<Rightarrow> string \<Rightarrow> store
     \<Rightarrow> (exn + square_client) \<times> store" where
  "init strptime_with_tz now sdk config config_path st =
     (case dict_item (heap st config) ''refresh_token'' of
        Inl e \<Rightarrow> (Inl e, st)
      | Inr rt \<Rightarrow>
     (case dict_item (heap st config) ''client_id'' of
        Inl e \<Rightarrow> (Inl e, st)
      | Inr cid \<Rightarrow>
     (case dict_item (heap st config) ''client_secret'' of
        Inl e \<Rightarrow> (Inl e, st)
      | Inr cs \<Rightarrow>
        (let self = \<lparr>refresh_token = rt, client_id = cid, client_secret = cs,
                     environment = (if dict_get (heap st config) ''sandbox'' = PStr ''true''
                                    then ''sandbox'' else ''production''),
                     access_token = PNone\<rparr>
         in case get_access_token strptime_with_tz now sdk self config config_path st of
              (Inl e, st') \<Rightarrow> (Inl e, st')
            | (Inr token, st') \<Rightarrow> (Inr (self\<lparr>access_token := token\<rparr>), st')))))"

section \<open>Timestamps\<close>

text \<open>
  A \<^verbatim>\<open>datetime\<close> in UTC is the number of microseconds since 0001-01-01T00:00:00, the
  first instant Python can represent. The calendar functions are those of Python's
  \<^verbatim>\<open>datetime\<close> module (\<^verbatim>\<open>_is_leap\<close>, \<^verbatim>\<open>_days_before_year\<close>,
  \<^verbatim>\<open>_days_before_month\<close>, \<^verbatim>\<open>_ymd2ord\<close>, \<^verbatim>\<open>_ord2ymd\<close>).
\<close>

definition is_leap :: "int \<Rightarrow> bool" where
  "is_leap year = (year mod 4 = 0 \<and> (year mod 100 \<noteq> 0 \<or> year mod 400 = 0))"

definition days_before_year :: "int \<Rightarrow> int" where
  "days_before_year year =
     (let y = year - 1 in y * 365 + y div 4 - y div 100 + y div 400)"

definition DAYS_IN_MONTH :: "int list" where
  "DAYS_IN_MONTH = [-1, 31, 28, 31, 30, 31, 30, 31, 31, 30, 31, 30, 31]"

definition DAYS_BEFORE_MONTH :: "int list" where
  "DAYS_BEFORE_MONTH = [-1, 0, 31, 59, 90, 120, 151, 181, 212, 243, 273, 304, 334]"

definition days_before_month :: "int \<Rightarrow> int \<Rightarrow> int" where
  "days_before_month year month =
     DAYS_BEFORE_MONTH ! nat month + (if month > 2 \<and> is_leap year then 1 else 0)"

definition ymd2ord :: "int \<Rightarrow> int \<Rightarrow> int \<Rightarrow> int" where
  "ymd2ord year month day = days_before_year year + days_before_month year month + day"

definition ord2ymd :: "int \<Rightarrow> int \<times> int \<times> int" where
  "ord2ymd ordinal =
     (let n0 = ordinal - 1;
          n400 = n0 div 146097; n1 = n0 mod 146097;
          n100 = n1 div 36524; n2 = n1 mod 36524;
          n4 = n2 div 1461; n3 = n2 mod 1461;
          n1y = n3 div 365; n = n3 mod 365;
          year = n400 * 400 + 1 + n100 * 100 + n4 * 4 + n1y
      in if n1y = 4 \<or> n100 = 4 then (year - 1, 12, 31)
         else
           (let leapyear = (n1y = 3 \<and> (n4 \<noteq> 24 \<or> n100 = 3));
                month = (n + 50) div 32;
                preceding = DAYS_BEFORE_MONTH ! nat month + (if month > 2 \<and> leapyear then 1 else 0)
            in if preceding > n
               then (let month' = month - 1;
                         preceding' = preceding
                           - (DAYS_IN_MONTH ! nat month' + (if month' = 2 \<and> leapyear then 1 else 0))
                     in (year, month', n - preceding' + 1))
               else (year, month, n - preceding + 1)))"

definition datetime :: "int \<Rightarrow> int \<Rightarrow> int \<Rightarrow> int \<Rightarrow> int \<Rightarrow> int \<Rightarrow> int \<Rightarrow> int" where
  "datetime year month day hour minute second microsecond =
     (ymd2ord year month day - 1) * usec_per_day
       + ((hour * 60 + minute) * 60 + second) * 1000000 + microsecond"

text \<open>
  \<^verbatim>\<open>dt - timedelta(...)\<close>: a result before the first representable instant is an
  \<^verbatim>\<open>OverflowError\<close>.
\<close>

definition datetime_sub :: "int \<Rightarrow> int \<Rightarrow> exn + int" where
  "datetime_sub dt delta = (if dt - delta < 0 then Inl OverflowError else Inr (dt - delta))"

definition timedelta_milliseconds :: "int \<Rightarrow> int" where
  "timedelta_milliseconds ms = ms * 1000"

text \<open>Decimal digits: the last \<open>k\<close> digits of a number, zero-padded.\<close>

fun digits :: "nat \<Rightarrow> int \<Rightarrow> string" where
  "digits 0 n = []"
| "digits (Suc k) n = digits k (n div 10) @ [''0123456789'' ! nat (n mod 10)]"

text \<open>
  \<^verbatim>\<open>singer.utils.strftime(dtime, format_str)\<close> for a UTC time and the two formats the
  client uses: \<^verbatim>\<open>DATETIME_FMT = "%04Y-%m-%dT%H:%M:%S.%fZ"\<close> (the default) and
  \<^verbatim>\<open>DATETIME_PARSE = "%Y-%m-%dT%H:%M:%SZ"\<close>. As on glibc, \<^verbatim>\<open>%04Y\<close> pads the year
  to four digits and \<^verbatim>\<open>%Y\<close> does not pad.
\<close>

datatype format_str = DATETIME_FMT | DATETIME_PARSE

definition year_digits :: "int \<Rightarrow> string" where
  "year_digits y =
     (if y < 10 then digits 1 y else if y < 100 then digits 2 y
      else if y < 1000 then digits 3 y else digits 4 y)"

definition strftime :: "format_str \<Rightarrow> int \<Rightarrow> string" where
  "strftime fmt dt =
     (case ord2ymd (dt div usec_per_day + 1) of
        (y, m, d) \<Rightarrow>
          (let rest = dt mod usec_per_day;
               hms = digits 2 (rest div 3600000000) @ '':''
                     @ digits 2 (rest div 60000000 mod 60) @ '':''
                     @ digits 2 (rest div 1000000 mod 60)
           in case fmt of
                DATETIME_FMT \<Rightarrow>
                  digits 4 y @ ''-'' @ digits 2 m @ ''-'' @ digits 2 d @ ''T'' @ hms
                    @ ''.'' @ digits 6 (rest mod 1000000) @ ''Z''
              | DATETIME_PARSE \<Rightarrow>
                  year_digits y @ ''-'' @ digits 2 m @ ''-'' @ digits 2 d @ ''T'' @ hms @ ''Z''))"

text \<open>
  A model of \<^verbatim>\<open>singer.utils.strptime_to_utc\<close> on the one shape of timestamp the tap
  itself writes, \<^verbatim>\<open>YYYY-MM-DDTHH:MM:SSZ\<close>; anything else is a \<^verbatim>\<open>ValueError\<close> here.
  The extractors below take the parser as an argument; this one serves to run them.
\<close>

definition digit_value :: "char \<Rightarrow> int option" where
  "digit_value c = map_of (zip ''0123456789'' [0, 1, 2, 3, 4, 5, 6, 7, 8, 9]) c"

fun number :: "int \<Rightarrow> string \<Rightarrow> int option" where
  "number acc [] = Some acc"
| "number acc (c # s) =
     (case digit_value c of None \<Rightarrow> None | Some d \<Rightarrow> number (acc * 10 + d) s)"

definition days_in_month :: "int \<Rightarrow> int \<Rightarrow> int" where
  "days_in_month year month =
     (if month = 2 \<and> is_leap year then 29 else DAYS_IN_MONTH ! nat month)"

definition parse_utc :: "string \<Rightarrow> exn + int" where
  "parse_utc s =
     (if length s = 20 \<and> s ! 4 = CHR ''-'' \<and> s ! 7 = CHR ''-'' \<and> s ! 10 = CHR ''T''
         \<and> s ! 13 = CHR '':'' \<and> s ! 16 = CHR '':'' \<and> s ! 19 = CHR ''Z''
      then (case (number 0 (take 4 s), number 0 (take 2 (drop 5 s)),
                  number 0 (take 2 (drop 8 s)), number 0 (take 2 (drop 11 s)),
                  number 0 (take 2 (drop 14 s)), number 0 (take 2 (drop 17 s))) of
              (Some y, Some m, Some d, Some hh, Some mm, Some ss) \<Rightarrow>
                if 1 \<le> y \<and> 1 \<le> m \<and> m \<le> 12 \<and> 1 \<le> d \<and> d \<le> days_in_month y m
                   \<and> hh < 24 \<and> mm < 60 \<and> ss < 60
                then Inr (datetime y m d hh mm ss 0) else Inl ValueError
            | _ \<Rightarrow> Inl ValueError)
      else Inl ValueError)"

section \<open>Paginators and stream extractors\<close>

text \<open>
  An extractor is a generator: it does nothing until the consumer asks for a page, and
  between two pages it issues one request. A run of a generator is described by the pages
  it yielded, each a pair of the records and the cursor, the requests it issued (the body
  or keyword arguments of each), how it ended, and the world it left. The first argument
  of every generator below is the number of requests the consumer lets it make: a
  generator that would go on is \<open>Suspended\<close> there, one whose loop ended is
  \<open>Exhausted\<close>, and one that raised is \<open>Raised\<close> with the exception.
\<close>

datatype ending = Exhausted | Raised exn | Suspended

record ('q, 'w) run =
  pages :: "(pyval \<times> pyval) list"
  requests :: "'q list"
  ending :: ending
  world :: 'w

definition stopped :: "ending \<Rightarrow> 'w \<Rightarrow> ('q, 'w) run" where
  "stopped e w = \<lparr>pages = [], requests = [], ending = e, world = w\<rparr>"

definition failed :: "'q \<Rightarrow> exn \<Rightarrow> 'w \<Rightarrow> ('q, 'w) run" where
  "failed q e w = \<lparr>pages = [], requests = [q], ending = Raised e, world = w\<rparr>"

definition emit :: "pyval \<times> pyval \<Rightarrow> 'q \<Rightarrow> ('q, 'w) run \<Rightarrow> ('q, 'w) run" where
  "emit page q r = r\<lparr>pages := page # pages r, requests := q # requests r\<rparr>"

text \<open>\<^verbatim>\<open>x.get(k, default)\<close>: only a dict has the method.\<close>

fun py_get :: "pyval \<Rightarrow> string \<Rightarrow> pyval \<Rightarrow> exn + pyval" where
  "py_get (PDict d) k dflt = Inr (dict_get_default d k dflt)"
| "py_get _ k dflt = Inl AttributeError"

text \<open>
  \<^verbatim>\<open>self._retryable_v2_method(request_method, body)\<close> as the paginators use it: the
  result of the decorated call and the world after it.
\<close>

definition retried ::
  "nat \<Rightarrow> ('b \<Rightarrow> 'w \<Rightarrow> (exn + response) \<times> 'w) \<Rightarrow> 'b \<Rightarrow> 'w \<Rightarrow> (exn + response) \<times> 'w" where
  "retried max_time request_method bdy w =
     (case retryable_v2_method max_time request_method bdy w of (r, k, w') \<Rightarrow> (r, w'))"

definition initial_cursor :: string where
  "initial_cursor = ''__initial__''"

text \<open>
  The loop of \<^verbatim>\<open>_get_v2_objects\<close>, with the call of the decorated method as \<open>call\<close>.
  The body is one dict object, updated in place; what is recorded as the request is its
  content when the call is made.
\<close>

primrec v2_loop ::
  "nat \<Rightarrow> (dict \<Rightarrow> 'w \<Rightarrow> (exn + response) \<times> 'w) \<Rightarrow> string \<Rightarrow> pyval \<Rightarrow> dict \<Rightarrow> 'w
     \<Rightarrow> (dict, 'w) run" where
  "v2_loop 0 call body_key cursor bdy w =
     stopped (if truthy cursor then Suspended else Exhausted) w"
| "v2_loop (Suc n) call body_key cursor bdy w =
     (if \<not> truthy cursor then stopped Exhausted w
      else
        (let bdy' = (if cursor \<noteq> PStr initial_cursor then dict_set bdy ''cursor'' cursor else bdy)
         in case call bdy' w of
              (Inl e, w') \<Rightarrow> failed bdy' e w'
            | (Inr result, w') \<Rightarrow>
                (case py_get (body result) ''cursor'' PNone of
                   Inl e \<Rightarrow> failed bdy' e w'
                 | Inr cursor' \<Rightarrow>
                     (case py_get (body result) body_key (PList []) of
                        Inl e \<Rightarrow> failed bdy' e w'
                      | Inr records \<Rightarrow>
                          emit (records, cursor') bdy'
                            (v2_loop n call body_key cursor' bdy' w')))))"

definition get_v2_objects ::
  "nat \<Rightarrow> nat \<Rightarrow> (dict \<Rightarrow> 'w \<Rightarrow> (exn + response) \<times> 'w) \<Rightarrow> dict \<Rightarrow> string \<Rightarrow> 'w
     \<Rightarrow> (dict, 'w) run" where
  "get_v2_objects n max_time request_method bdy body_key w =
     v2_loop n (retried max_time request_method) body_key
       (dict_get_default bdy ''cursor'' (PStr initial_cursor)) bdy w"

text \<open>
  \<^verbatim>\<open>get_catalog\<close> and \<^verbatim>\<open>get_refunds\<close>. The parser \<^verbatim>\<open>utils.strptime_to_utc\<close> is an
  argument, as is the SDK call behind the lambda.
\<close>

definition get_catalog ::
  "nat \<Rightarrow> nat \<Rightarrow> (string \<Rightarrow> exn + int) \<Rightarrow> (dict \<Rightarrow> 'w \<Rightarrow> (exn + response) \<times> 'w)
     \<Rightarrow> pyval \<Rightarrow> string \<Rightarrow> 'w \<Rightarrow> (dict, 'w) run" where
  "get_catalog n max_time strptime_to_utc search_catalog_objects object_type start_time w =
     (case strptime_to_utc start_time of
        Inl e \<Rightarrow> stopped (Raised e) w
      | Inr start_time1 \<Rightarrow>
          (case datetime_sub start_time1 (timedelta_milliseconds 1) of
             Inl e \<Rightarrow> stopped (Raised e) w
           | Inr start_time2 \<Rightarrow>
               (let start_time3 = strftime DATETIME_FMT start_time2;
                    bdy = [(''object_types'', PList [object_type]),
                           (''include_deleted_objects'', PBool True),
                           (''begin_time'', PStr start_time3)]
                in get_v2_objects n max_time search_catalog_objects bdy ''objects'' w)))"

definition get_refunds ::
  "nat \<Rightarrow> nat \<Rightarrow> (string \<Rightarrow> exn + int) \<Rightarrow> (dict \<Rightarrow> 'w \<Rightarrow> (exn + response) \<times> 'w)
     \<Rightarrow> string \<Rightarrow> pyval \<Rightarrow> 'w \<Rightarrow> (dict, 'w) run" where
  "get_refunds n max_time strptime_to_utc list_payment_refunds start_time bookmarked_cursor w =
     (case strptime_to_utc start_time of
        Inl e \<Rightarrow> stopped (Raised e) w
      | Inr start_time1 \<Rightarrow>
          (case datetime_sub start_time1 (timedelta_milliseconds 1) of
             Inl e \<Rightarrow> stopped (Raised e) w
           | Inr start_time2 \<Rightarrow>
               (let start_time3 = strftime DATETIME_FMT start_time2;
                    bdy0 = [(''begin_time'', PStr start_time3)];
                    bdy = (if truthy bookmarked_cursor
                           then dict_set bdy0 ''cursor'' bookmarked_cursor else bdy0)
                in get_v2_objects n max_time list_payment_refunds bdy ''refunds'' w)))"

text \<open>
  \<^verbatim>\<open>get_payments\<close>, \<^verbatim>\<open>get_cash_drawer_shifts\<close> and \<^verbatim>\<open>get_payouts\<close> have the same
  body up to the SDK call, its page size and the key of the records: \<open>window_loop\<close> is
  that \<^verbatim>\<open>while\<close> loop, \<open>kwargs\<close> the keyword arguments of the call for a cursor. The
  lambda given to the decorated method ignores its argument, which is \<^verbatim>\<open>None\<close>.
\<close>

primrec window_loop ::
  "nat \<Rightarrow> (dict \<Rightarrow> 'w \<Rightarrow> (exn + response) \<times> 'w) \<Rightarrow> string \<Rightarrow> (pyval \<Rightarrow> dict) \<Rightarrow> pyval
     \<Rightarrow> pyval \<Rightarrow> 'w \<Rightarrow> (dict, 'w) run" where
  "window_loop 0 call records_key kwargs bookmarked_cursor cursor w =
     stopped (if truthy cursor then Suspended else Exhausted) w"
| "window_loop (Suc n) call records_key kwargs bookmarked_cursor cursor w =
     (if \<not> truthy cursor then stopped Exhausted w
      else
        (let cursor1 = (if cursor = PStr initial_cursor then bookmarked_cursor else cursor)
         in case call (kwargs cursor1) w of
              (Inl e, w') \<Rightarrow> failed (kwargs cursor1) e w'
            | (Inr result, w') \<Rightarrow>
                (case py_get (body result) records_key (PList []) of
                   Inl e \<Rightarrow> failed (kwargs cursor1) e w'
                 | Inr records \<Rightarrow>
                     (case py_get (body result) ''cursor'' PNone of
                        Inl e \<Rightarrow> failed (kwargs cursor1) e w'
                      | Inr cursor' \<Rightarrow>
                          emit (records, cursor') (kwargs cursor1)
                            (window_loop n call records_key kwargs bookmarked_cursor
                               cursor' w')))))"

definition window_kwargs :: "pyval \<Rightarrow> pyval \<Rightarrow> string \<Rightarrow> int \<Rightarrow> pyval \<Rightarrow> dict" where
  "window_kwargs location_id start_time end_time limit cursor =
     [(''location_id'', location_id), (''begin_time'', start_time),
      (''end_time'', PStr end_time), (''cursor'', cursor), (''limit'', PInt limit)]"

definition get_payments ::
  "nat \<Rightarrow> nat \<Rightarrow> ('w \<Rightarrow> int \<times> 'w) \<Rightarrow> (dict \<Rightarrow> 'w \<Rightarrow> (exn + response) \<times> 'w)
     \<Rightarrow> pyval \<Rightarrow> pyval \<Rightarrow> pyval \<Rightarrow> 'w \<Rightarrow> (dict, 'w) run" where
  "get_payments n max_time now list_payments location_id start_time bookmarked_cursor w =
     (let cursor = (if truthy bookmarked_cursor then bookmarked_cursor
                    else PStr initial_cursor)
      in case now w of
           (t, w1) \<Rightarrow>
             (let end_time = strftime DATETIME_PARSE t
              in window_loop n
                   (\<lambda>kw. retried max_time (\<lambda>bdy. list_payments kw) PNone)
                   ''payments'' (window_kwargs location_id start_time end_time 100)
                   bookmarked_cursor cursor w1))"

definition get_cash_drawer_shifts ::
  "nat \<Rightarrow> nat \<Rightarrow> ('w \<Rightarrow> int \<times> 'w) \<Rightarrow> (dict \<Rightarrow> 'w \<Rightarrow> (exn + response) \<times> 'w)
     \<Rightarrow> pyval \<Rightarrow> pyval \<Rightarrow> pyval \<Rightarrow> 'w \<Rightarrow> (dict, 'w) run" where
  "get_cash_drawer_shifts n max_time now list_cash_drawer_shifts location_id start_time
       bookmarked_cursor w =
     (let cursor = (if truthy bookmarked_cursor then bookmarked_cursor
                    else PStr initial_cursor)
      in case now w of
           (t, w1) \<Rightarrow>
             (let end_time = strftime DATETIME_PARSE t
              in window_loop n
                   (\<lambda>kw. retried max_time (\<lambda>bdy. list_cash_drawer_shifts kw) PNone)
                   ''items'' (window_kwargs location_id start_time end_time 1000)
                   bookmarked_cursor cursor w1))"

definition get_payouts ::
  "nat \<Rightarrow> nat \<Rightarrow> ('w \<Rightarrow> int \<times> 'w) \<Rightarrow> (dict \<Rightarrow> 'w \<Rightarrow> (exn + response) \<times> 'w)
     \<Rightarrow> pyval \<Rightarrow> pyval \<Rightarrow> pyval \<Rightarrow> 'w \<Rightarrow> (dict, 'w) run" where
  "get_payouts n max_time now list_payouts location_id start_time bookmarked_cursor w =
     (let cursor = (if truthy bookmarked_cursor then bookmarked_cursor
                    else PStr initial_cursor)
      in case now w of
           (t, w1) \<Rightarrow>
             (let end_time = strftime DATETIME_PARSE t
              in window_loop n
                   (\<lambda>kw. retried max_time (\<lambda>bdy. list_payouts kw) PNone)
                   ''payouts'' (window_kwargs location_id start_time end_time 100)
                   bookmarked_cursor cursor w1))"

section \<open>Servers whose answers depend on the request alone\<close>

text \<open>
  Resuming a stream can only reproduce pages when the server answers a repeated request as
  before. \<open>stateless\<close> says that the answer to a request does not depend on the state of
  the world; \<open>ignores_end_time\<close> says the same of a windowed list call and adds that the
  answer does not depend on the upper bound of the window either (no record falls between
  the bounds of two runs).
\<close>

definition stateless :: "('q \<Rightarrow> 'w \<Rightarrow> (exn + response) \<times> 'w) \<Rightarrow> bool" where
  "stateless call = (\<forall>q w w'. fst (call q w) = fst (call q w'))"

definition ignores_end_time :: "(dict \<Rightarrow> 'w \<Rightarrow> (exn + response) \<times> 'w) \<Rightarrow> bool" where
  "ignores_end_time api =
     (\<forall>location_id start_time end_time end_time' limit cursor w w'.
        fst (api (window_kwargs location_id start_time end_time limit cursor) w)
          = fst (api (window_kwargs location_id start_time end_time' limit cursor) w'))"


section \<open>Concrete responses and worlds\<close>

text \<open>The inputs at which the theorems below are run.\<close>

text \<open>
  A scripted world for concrete runs: the answers still to come, served in order whatever
  is asked; when none is left the connection fails.
\<close>

fun scripted :: "'q \<Rightarrow> 'r list \<Rightarrow> (exn + 'r) \<times> 'r list" where
  "scripted q [] = (Inl ConnectionError, [])"
| "scripted q (r # rs) = (Inr r, rs)"

definition ok_result :: response where
  "ok_result = \<lparr>is_error = False, status_code = 200, errors = PNone, body = PDict []\<rparr>"

definition unauthorized_unavailable :: response where
  "unauthorized_unavailable =
     \<lparr>is_error = True, status_code = 401, errors = PNone,
      body = PStr ''Service Unavailable''\<rparr>"

definition unavailable_empty :: response where
  "unavailable_empty = \<lparr>is_error = True, status_code = 503, errors = PNone, body = PNone\<rparr>"

definition link_with_token :: string where
  \<open>link_with_token = ''<https://connect.squareup.com/v1/me/payments?batch_token=abc123>; rel="next"''\<close>

definition link_without_token :: string where
  \<open>link_without_token = ''<https://connect.squareup.com/v1/me/payments?limit=200>; rel="next"''\<close>

text \<open>
  A token status parser for the timestamps \<open>parse_utc\<close> reads, a good token status answer
  with a given expiry, and a failed one.
\<close>

definition parse_expiry :: "pyval \<Rightarrow> exn + int" where
  "parse_expiry v = (case v of PStr s \<Rightarrow> parse_utc s | _ \<Rightarrow> Inl TypeError)"

definition token_expires :: "string \<Rightarrow> response" where
  "token_expires expires_at =
     \<lparr>is_error = False, status_code = 200, errors = PNone,
      body = PDict [(''expires_at'', PStr expires_at), (''merchant_id'', PStr ''M1'')]\<rparr>"

definition token_rejected :: response where
  "token_rejected =
     \<lparr>is_error = True, status_code = 401,
      errors = PList [PDict [(''code'', PStr ''UNAUTHORIZED'')]], body = PDict []\<rparr>"

text \<open>
  A config without an access token, held by reference 0 and by the file
  \<^verbatim>\<open>config.json\<close>; a client built from it; an OAuth endpoint that rejects every token
  status query and answers a refresh with a new pair of tokens.
\<close>

definition config0 :: dict where
  "config0 =
     [(''client_id'', PStr ''id''), (''client_secret'', PStr ''secret''),
      (''refresh_token'', PStr ''old-refresh''),
      (''start_date'', PStr ''2023-01-01T00:00:00Z''), (''sandbox'', PStr ''true'')]"

definition store0 :: store where
  "store0 = \<lparr>heap = (\<lambda>r. if r = 0 then config0 else []),
              files = [''config.json'' \<mapsto> config0], unwritable = {}\<rparr>"

definition self0 :: square_client where
  "self0 = \<lparr>refresh_token = PStr ''old-refresh'', client_id = PStr ''id'',
             client_secret = PStr ''secret'', environment = ''sandbox'',
             access_token = PNone\<rparr>"

definition new_tokens :: response where
  "new_tokens =
     \<lparr>is_error = False, status_code = 200, errors = PNone,
      body = PDict [(''access_token'', PStr ''new-access''), (''token_type'', PStr ''bearer''),
                    (''refresh_token'', PStr ''new-refresh'')]\<rparr>"

definition sdk0 :: o_auth where
  "sdk0 = \<lparr>retrieve_token_status = (\<lambda>env t. token_rejected),
            obtain_token = (\<lambda>env b. new_tokens)\<rparr>"

text \<open>
  A page of a list endpoint: the records under their key and, when there is one, the
  cursor. Three pages as a server hands them out, and a request body without a cursor.
\<close>

definition page :: "string \<Rightarrow> pyval list \<Rightarrow> pyval option \<Rightarrow> response" where
  "page records_key records cursor =
     \<lparr>is_error = False, status_code = 200, errors = PNone,
      body = PDict ((records_key, PList records)
                    # (case cursor of None \<Rightarrow> [] | Some c \<Rightarrow> [(''cursor'', c)]))\<rparr>"

definition three_pages :: "string \<Rightarrow> response list" where
  "three_pages records_key =
     [page records_key [PStr ''r1'', PStr ''r2''] (Some (PStr ''c1'')),
      page records_key [PStr ''r3''] (Some (PStr ''c2'')),
      page records_key [PStr ''r4''] None]"

definition body0 :: dict where
  "body0 = [(''limit'', PInt 200)]"

text \<open>
  A world that is just a clock, in microseconds: reading it takes a microsecond, and a
  request to the server below a second. The server has two pages; it answers by the
  cursor of the request alone.
\<close>

definition tick :: "int \<Rightarrow> int \<times> int" where
  "tick w = (w, w + 1)"

definition two_page_server :: "string \<Rightarrow> dict \<Rightarrow> int \<Rightarrow> (exn + response) \<times> int" where
  "two_page_server records_key q w =
     (if dict_get q ''cursor'' = PStr ''c1''
      then (Inr (page records_key [PStr ''r3''] None), w + 1000000)
      else (Inr (page records_key [PStr ''r1'', PStr ''r2''] (Some (PStr ''c1''))),
            w + 1000000))"

text \<open>A server with a single page that leaves the world as it is.\<close>

definition still_server :: "string \<Rightarrow> dict \<Rightarrow> 'w \<Rightarrow> (exn + response) \<times> 'w" where
  "still_server records_key q w = (Inr (page records_key [PStr ''r1''] None), w)"

section \<open>Dicts and runs: basic facts\<close>

lemma map_of_dict_set: "map_of (dict_set d k v) = (map_of d)(k \<mapsto> v)"
  by (induction d) (auto simp: fun_eq_iff)

lemma run_simps [simp]:
  "pages (stopped e w) = []" "requests (stopped e w) = []" "ending (stopped e w) = e"
  "world (stopped e w) = w"
  "pages (failed q x w) = []" "requests (failed q x w) = [q]" "ending (failed q x w) = Raised x"
  "world (failed q x w) = w"
  "pages (emit p q r) = p # pages r" "requests (emit p q r) = q # requests r"
  "ending (emit p q r) = ending r" "world (emit p q r) = world r"
  by (simp_all add: stopped_def failed_def emit_def)


section \<open>Retry policy: what is retried\<close>

lemma should_not_retry_RetryableError: "should_not_retry (RetryableError m) = False"
  by (simp add: should_not_retry_def)

lemma should_not_retry_HTTPError: "should_not_retry (HTTPError st) = (st = 400 \<or> st = 401)"
  by (simp add: should_not_retry_def)

text \<open>
  The v1 method gives up at once on a 400 or a 401: \<^verbatim>\<open>raise_for_status\<close> raises an
  \<^verbatim>\<open>HTTPError\<close> that carries the response, and \<open>should_not_retry\<close> finds its status.
\<close>

lemma retryable_v1_method_gives_up:
  assumes "session_get url params w = (Inr result, w')"
    and "http_status result = 400 \<or> http_status result = 401"
  shows "retryable_v1_method n session_get url params w
           = (Inl (HTTPError (http_status result)), 1, w')"
  using assms
  by (cases n)
     (auto simp: retryable_v1_method_def v1_method_def raise_for_status_def should_not_retry_def)

text \<open>
  The v2 method decides by the five conditions alone: whatever the status, an error result
  whose message is a container raises \<^verbatim>\<open>RetryableError\<close> when one of them holds and
  \<^verbatim>\<open>RuntimeError\<close> when none does.
\<close>

lemma retryable_conditions_container:
  assumes "py_in service_unavailable (error_message_of result) = Inr a"
  shows "\<exists>b c. py_in upstream_error (error_message_of result) = Inr b
           \<and> py_in cf_error_1101 (error_message_of result) = Inr c
           \<and> retryable_conditions result
               = Inr (a \<or> b \<or> c
                      \<or> (case error_message_of result of
                            PStr s \<Rightarrow> startswith s doctype_html | _ \<Rightarrow> False)
                      \<or> (status_code result = 429 \<or> status_code result \<ge> 500))"
  using assms
  by (cases "error_message_of result") (auto simp: retryable_conditions_def Let_def)

lemma v2_method_error:
  assumes "request_method bdy w = (Inr result, w')" and "is_error result"
    and "retryable_conditions result = Inr retryable"
  shows "v2_method request_method bdy w
           = (Inl (if retryable then RetryableError (error_message_of result)
                   else RuntimeError (error_message_of result)), w')"
  using assms by (simp add: v2_method_def)

text \<open>
  A \<^verbatim>\<open>RetryableError\<close> is retried while the time budget lasts, and nothing else is:
  \<open>should_not_retry\<close> never accepts a \<^verbatim>\<open>RetryableError\<close>, which has no response.
\<close>

lemma retryable_v2_method_retries:
  assumes "v2_method request_method bdy w = (Inl (RetryableError m), w')"
  shows "retryable_v2_method (Suc n) request_method bdy w
           = (case retryable_v2_method n request_method bdy w' of
                (r, k, w'') \<Rightarrow> (r, Suc k, w''))"
  using assms by (simp add: retryable_v2_method_def should_not_retry_def)

lemma retryable_v2_method_fatal:
  assumes "v2_method request_method bdy w = (Inl e, w')" and "\<not> is_RetryableError e"
  shows "retryable_v2_method n request_method bdy w = (Inl e, 1, w')"
  using assms by (cases n) (simp_all add: retryable_v2_method_def)

lemma retryable_v2_method_success:
  assumes "request_method bdy w = (Inr result, w')" and "\<not> is_error result"
  shows "retryable_v2_method n request_method bdy w = (Inr result, 1, w')"
  using assms by (cases n) (simp_all add: retryable_v2_method_def v2_method_def)

text \<open>
  C1. The claim: an error result with status 400 or 401 fails at once, without a retry,
  also when its message matches a retryable pattern. Run on a 401 whose body is
  \<^verbatim>\<open>Service Unavailable\<close>, followed by a good answer: the v2 method raises
  \<^verbatim>\<open>RetryableError\<close>, \<open>should_not_retry\<close> does not recognise it, and the request is made
  a second time.
\<close>

theorem retryable_v2_method_retries_401:
  "retryable_v2_method 1 scripted PNone [unauthorized_unavailable, ok_result]
     = (Inr ok_result, 2, [])"
  by (simp add: retryable_v2_method_def v2_method_def retryable_conditions_def
      error_message_of_def unauthorized_unavailable_def ok_result_def service_unavailable_def
      upstream_error_def cf_error_1101_def doctype_html_def should_not_retry_def)

text \<open>
  C6. The claim: an error result is retried exactly when its message matches one of the
  four patterns or its status is 429 or at least 500. Run on a 503 with neither errors nor
  a body (message \<^verbatim>\<open>None\<close>), with three retries in hand: the first \<^verbatim>\<open>in\<close> test raises
  \<^verbatim>\<open>TypeError\<close>, which is not retried, and the status is never looked at.
\<close>

theorem retryable_v2_method_503_without_message:
  "retryable_v2_method 3 scripted PNone [unavailable_empty, ok_result]
     = (Inl TypeError, 1, [ok_result])"
  by (simp add: retryable_v2_method_def v2_method_def retryable_conditions_def
      error_message_of_def unavailable_empty_def ok_result_def numeral_3_eq_3)

section \<open>Batch token: present, absent, and a link without one\<close>

lemma first_link_with_token:
  "parse_header_links link_with_token
     = [[(''url'', ''https://connect.squareup.com/v1/me/payments?batch_token=abc123''),
         (''rel'', ''next'')]]"
  by (simp add: link_with_token_def parse_header_links_def strip_def replace_chars_def
      parse_link_def)

lemma first_link_without_token:
  "parse_header_links link_without_token
     = [[(''url'', ''https://connect.squareup.com/v1/me/payments?limit=200''),
         (''rel'', ''next'')]]"
  by (simp add: link_without_token_def parse_header_links_def strip_def replace_chars_def
      parse_link_def)

lemma query_with_token:
  "parse_qs (urlparse_query ''https://connect.squareup.com/v1/me/payments?batch_token=abc123'')
     = [(''batch_token'', [''abc123''])]"
  by (simp add: urlparse_query_def parse_qs_def plus_to_space_def)

lemma query_without_token:
  "parse_qs (urlparse_query ''https://connect.squareup.com/v1/me/payments?limit=200'')
     = [(''limit'', [''200''])]"
  by (simp add: urlparse_query_def parse_qs_def plus_to_space_def)

text \<open>
  C2, as the claim states it, fails on a link header whose first URL has no
  \<^verbatim>\<open>batch_token\<close> parameter: \<^verbatim>\<open>parsed_query['batch_token']\<close> is a subscript, not a
  \<^verbatim>\<open>get\<close>, and raises \<^verbatim>\<open>KeyError\<close> where the claim has the function return none.
\<close>

theorem get_batch_token_link_without_token:
  "get_batch_token_from_headers parse_header_links urlparse_query parse_qs
     [(''content-type'', ''application/json''), (''link'', link_without_token)]
     = Inl (KeyError ''batch_token'')"
  by (simp add: get_batch_token_from_headers_def first_link_without_token query_without_token)
     (simp add: link_without_token_def)

text \<open>
  C2, amended. Whatever the three library functions compute: without a \<^verbatim>\<open>link\<close> header
  (or with an empty one) the function returns none; with one, it returns the first value
  that the query of the first link's URL has for \<^verbatim>\<open>batch_token\<close>, and raises
  \<^verbatim>\<open>KeyError\<close> when the query has no such parameter. With the library functions as
  modelled, the header \<^verbatim>\<open><...?batch_token=abc123>; rel="next"\<close> gives \<^verbatim>\<open>abc123\<close>.
\<close>

theorem get_batch_token_from_headers_cases:
  "(map_of hdrs ''link'' = None \<or> map_of hdrs ''link'' = Some []
      \<longrightarrow> get_batch_token_from_headers links_of query_of qs_of hdrs = Inr None)
   \<and> (map_of hdrs ''link'' = Some link \<and> link \<noteq> [] \<and> links_of link = l # ls
        \<and> map_of l ''url'' = Some url
      \<longrightarrow> (\<forall>v vs. map_of (qs_of (query_of url)) ''batch_token'' = Some (v # vs)
             \<longrightarrow> get_batch_token_from_headers links_of query_of qs_of hdrs = Inr (Some v))
          \<and> (map_of (qs_of (query_of url)) ''batch_token'' = None
             \<longrightarrow> get_batch_token_from_headers links_of query_of qs_of hdrs
                   = Inl (KeyError ''batch_token'')))
   \<and> get_batch_token_from_headers parse_header_links urlparse_query parse_qs
        [(''link'', link_with_token)] = Inr (Some ''abc123'')"
proof (intro conjI impI allI)
  assume "map_of hdrs ''link'' = None \<or> map_of hdrs ''link'' = Some []"
  then show "get_batch_token_from_headers links_of query_of qs_of hdrs = Inr None"
    by (auto simp: get_batch_token_from_headers_def)
next
  fix v vs
  assume "map_of hdrs ''link'' = Some link \<and> link \<noteq> [] \<and> links_of link = l # ls
            \<and> map_of l ''url'' = Some url"
    and "map_of (qs_of (query_of url)) ''batch_token'' = Some (v # vs)"
  then show "get_batch_token_from_headers links_of query_of qs_of hdrs = Inr (Some v)"
    by (simp add: get_batch_token_from_headers_def)
next
  assume "map_of hdrs ''link'' = Some link \<and> link \<noteq> [] \<and> links_of link = l # ls
            \<and> map_of l ''url'' = Some url"
    and "map_of (qs_of (query_of url)) ''batch_token'' = None"
  then show "get_batch_token_from_headers links_of query_of qs_of hdrs
               = Inl (KeyError ''batch_token'')"
    by (simp add: get_batch_token_from_headers_def)
next
  have "link_with_token \<noteq> []"
    by (simp add: link_with_token_def)
  then show "get_batch_token_from_headers parse_header_links urlparse_query parse_qs
          [(''link'', link_with_token)] = Inr (Some ''abc123'')"
    by (simp add: get_batch_token_from_headers_def first_link_with_token query_with_token)
qed

theorem get_batch_token_from_headers_cases_witness:
  "get_batch_token_from_headers parse_header_links urlparse_query parse_qs
     [(''content-type'', ''application/json'')] = Inr None
   \<and> get_batch_token_from_headers parse_header_links urlparse_query parse_qs
       [(''link'', link_with_token)] = Inr (Some ''abc123'')
   \<and> get_batch_token_from_headers parse_header_links urlparse_query parse_qs
       [(''link'', link_without_token)] = Inl (KeyError ''batch_token'')"
proof -
  have a: "link_with_token \<noteq> []" and b: "link_without_token \<noteq> []"
    by (simp_all add: link_with_token_def link_without_token_def)
  note none = get_batch_token_from_headers_cases
    [of "[(''content-type'', ''application/json'')]" parse_header_links urlparse_query parse_qs]
  note some = get_batch_token_from_headers_cases
    [of "[(''link'', link_with_token)]" parse_header_links urlparse_query parse_qs
      link_with_token
      "[(''url'', ''https://connect.squareup.com/v1/me/payments?batch_token=abc123''),
        (''rel'', ''next'')]" "[]"
      "''https://connect.squareup.com/v1/me/payments?batch_token=abc123''"]
  note key = get_batch_token_from_headers_cases
    [of "[(''link'', link_without_token)]" parse_header_links urlparse_query parse_qs
      link_without_token
      "[(''url'', ''https://connect.squareup.com/v1/me/payments?limit=200''),
        (''rel'', ''next'')]" "[]"
      "''https://connect.squareup.com/v1/me/payments?limit=200''"]
  from none have 1: "get_batch_token_from_headers parse_header_links urlparse_query parse_qs
     [(''content-type'', ''application/json'')] = Inr None"
    by simp
  from some a have 2: "get_batch_token_from_headers parse_header_links urlparse_query parse_qs
       [(''link'', link_with_token)] = Inr (Some ''abc123'')"
    by (simp add: first_link_with_token query_with_token)
  from key b have 3: "get_batch_token_from_headers parse_header_links urlparse_query parse_qs
       [(''link'', link_without_token)] = Inl (KeyError ''batch_token'')"
    by (simp add: first_link_without_token query_without_token)
  from 1 2 3 show ?thesis by simp
qed

section \<open>When a new access token is required\<close>

lemma datetime_2024_01_01: "datetime 2024 1 1 0 0 0 0 = 63839664000000000"
  by (simp add: datetime_def ymd2ord_def days_before_year_def days_before_month_def
      DAYS_BEFORE_MONTH_def usec_per_day_def)

lemma parse_utc_2024_01_23: "parse_utc ''2024-01-23T00:00:00Z'' = Inr 63841564800000000"
  by (simp add: parse_utc_def digit_value_def days_in_month_def DAYS_IN_MONTH_def is_leap_def
      datetime_def ymd2ord_def days_before_year_def days_before_month_def
      DAYS_BEFORE_MONTH_def usec_per_day_def)

lemma parse_utc_2024_01_23_01: "parse_utc ''2024-01-23T01:00:00Z'' = Inr 63841568400000000"
  by (simp add: parse_utc_def digit_value_def days_in_month_def DAYS_IN_MONTH_def is_leap_def
      datetime_def ymd2ord_def days_before_year_def days_before_month_def
      DAYS_BEFORE_MONTH_def usec_per_day_def)

lemma parse_utc_2024_01_31: "parse_utc ''2024-01-31T00:00:00Z'' = Inr 63842256000000000"
  by (simp add: parse_utc_def digit_value_def days_in_month_def DAYS_IN_MONTH_def is_leap_def
      datetime_def ymd2ord_def days_before_year_def days_before_month_def
      DAYS_BEFORE_MONTH_def usec_per_day_def)

lemma timedelta_days_le_22: "(timedelta_days delta \<le> 22) = (delta < 23 * usec_per_day)"
  unfolding timedelta_days_def usec_per_day_def by arith

text \<open>
  C5, as the claim states it, fails between 22 and 23 days: with the clock at
  2024-01-01T00:00:00 and a token that expires at 2024-01-23T01:00:00, which is 22 days
  and one hour from now and so not "22 or fewer days from now", the function still
  returns true, because \<^verbatim>\<open>.days\<close> drops the hour.
\<close>

theorem require_new_access_token_22_days_1_hour:
  "require_new_access_token parse_expiry (datetime 2024 1 1 0 0 0 0) (PStr ''token'')
     (\<lambda>t. token_expires ''2024-01-23T01:00:00Z'') = Inr True
   \<and> parse_expiry (PStr ''2024-01-23T01:00:00Z'')
       = Inr (datetime 2024 1 1 0 0 0 0 + 22 * usec_per_day + 3600000000)"
  by (simp add: require_new_access_token_def token_expires_def parse_expiry_def
      parse_utc_2024_01_23_01 datetime_2024_01_01 timedelta_days_le_22 REFRESH_TOKEN_BEFORE_def)
     (simp add: usec_per_day_def)

text \<open>
  C5, amended. The function returns true for an empty or absent token and for a failed
  status query; otherwise, when the answer has an \<^verbatim>\<open>expires_at\<close> that parses, it returns
  true exactly when the expiry is less than 23 days after now, that is when the whole days
  until expiry, rounded down, are at most 22. It is true at exactly 22 days and false at
  30 days (the theorem after this one runs both).
\<close>

theorem require_new_access_token_cases:
  "(\<not> truthy token
      \<longrightarrow> require_new_access_token strptime_with_tz now token client = Inr True)
   \<and> (truthy token \<and> is_error (client token)
      \<longrightarrow> require_new_access_token strptime_with_tz now token client = Inr True)
   \<and> (truthy token \<and> \<not> is_error (client token)
        \<and> py_getitem (body (client token)) ''expires_at'' = Inr expires_at
        \<and> strptime_with_tz expires_at = Inr expiry
      \<longrightarrow> require_new_access_token strptime_with_tz now token client
            = Inr (timedelta_days (expiry - now) \<le> 22)
          \<and> (timedelta_days (expiry - now) \<le> 22) = (expiry - now < 23 * usec_per_day))"
  by (simp add: require_new_access_token_def Let_def REFRESH_TOKEN_BEFORE_def
      timedelta_days_le_22)

theorem require_new_access_token_cases_witness:
  "require_new_access_token parse_expiry (datetime 2024 1 1 0 0 0 0) PNone
     (\<lambda>t. token_expires ''2024-01-31T00:00:00Z'') = Inr True
   \<and> require_new_access_token parse_expiry (datetime 2024 1 1 0 0 0 0) (PStr [])
       (\<lambda>t. token_expires ''2024-01-31T00:00:00Z'') = Inr True
   \<and> require_new_access_token parse_expiry (datetime 2024 1 1 0 0 0 0) (PStr ''token'')
       (\<lambda>t. token_rejected) = Inr True
   \<and> require_new_access_token parse_expiry (datetime 2024 1 1 0 0 0 0) (PStr ''token'')
       (\<lambda>t. token_expires ''2024-01-23T00:00:00Z'') = Inr True
   \<and> require_new_access_token parse_expiry (datetime 2024 1 1 0 0 0 0) (PStr ''token'')
       (\<lambda>t. token_expires ''2024-01-31T00:00:00Z'') = Inr False"
proof -
  let ?now = "datetime 2024 1 1 0 0 0 0"
  note absent = require_new_access_token_cases
    [of PNone parse_expiry ?now "\<lambda>t. token_expires ''2024-01-31T00:00:00Z''"]
  note empty = require_new_access_token_cases
    [of "PStr []" parse_expiry ?now "\<lambda>t. token_expires ''2024-01-31T00:00:00Z''"]
  note rejected = require_new_access_token_cases
    [of "PStr ''token''" parse_expiry ?now "\<lambda>t. token_rejected"]
  note boundary = require_new_access_token_cases
    [of "PStr ''token''" parse_expiry ?now "\<lambda>t. token_expires ''2024-01-23T00:00:00Z''"
      "PStr ''2024-01-23T00:00:00Z''" 63841564800000000]
  note later = require_new_access_token_cases
    [of "PStr ''token''" parse_expiry ?now "\<lambda>t. token_expires ''2024-01-31T00:00:00Z''"
      "PStr ''2024-01-31T00:00:00Z''" 63842256000000000]
  from absent have 1: "require_new_access_token parse_expiry ?now PNone
     (\<lambda>t. token_expires ''2024-01-31T00:00:00Z'') = Inr True"
    by simp
  from empty have 2: "require_new_access_token parse_expiry ?now (PStr [])
     (\<lambda>t. token_expires ''2024-01-31T00:00:00Z'') = Inr True"
    by simp
  from rejected have 3: "require_new_access_token parse_expiry ?now (PStr ''token'')
     (\<lambda>t. token_rejected) = Inr True"
    by (simp add: token_rejected_def)
  from boundary have 4: "require_new_access_token parse_expiry ?now (PStr ''token'')
     (\<lambda>t. token_expires ''2024-01-23T00:00:00Z'') = Inr True"
    by (simp add: token_expires_def parse_expiry_def parse_utc_2024_01_23 datetime_2024_01_01
        usec_per_day_def)
  from later have 5: "require_new_access_token parse_expiry ?now (PStr ''token'')
     (\<lambda>t. token_expires ''2024-01-31T00:00:00Z'') = Inr False"
    by (simp add: token_expires_def parse_expiry_def parse_utc_2024_01_31 datetime_2024_01_01
        usec_per_day_def)
  from 1 2 3 4 5 show ?thesis by simp
qed

section \<open>The config after a token refresh\<close>

lemma write_config_files:
  "files (snd (write_config config config_path data st)) config_path
     = (if config_path \<in> unwritable st then files st config_path
        else Some (dict_update (heap st config) data))"
  by (simp add: write_config_def Let_def)

lemma write_config_heap:
  "heap (snd (write_config config config_path data st))
     = (heap st)(config := dict_update (heap st config) data)"
  by (simp add: write_config_def Let_def)

lemma write_config_result:
  "fst (write_config config config_path data st)
     = (if config_path \<in> unwritable st then Inl OSError else Inr config)"
  by (simp add: write_config_def Let_def)

lemma write_config_failed:
  "write_config config config_path data st = (Inl e, st') \<Longrightarrow> files st' = files st"
  by (auto simp: write_config_def Let_def split: if_splits)

lemma get_access_token_refresh:
  assumes "require_new_access_token strptime_with_tz now
             (dict_get (heap st config) ''access_token'')
             (retrieve_token_status sdk (environment self)) = Inr True"
    and "obtain_token sdk (environment self)
           [(''client_id'', client_id self), (''client_secret'', client_secret self),
            (''grant_type'', PStr ''refresh_token''),
            (''refresh_token'', refresh_token self)] = result"
    and "\<not> is_error result"
    and "py_getitem (body result) ''access_token'' = Inr a"
    and "py_getitem (body result) ''refresh_token'' = Inr b"
  shows "get_access_token strptime_with_tz now sdk self config config_path st
           = (case write_config config config_path
                     [(''access_token'', a), (''refresh_token'', b)] st of
                (Inl e, st') \<Rightarrow> (Inl e, st')
              | (Inr c, st') \<Rightarrow> (Inr a, st'))"
  using assms by (simp add: get_access_token_def Let_def)

lemma get_access_token_files_kept:
  assumes "get_access_token strptime_with_tz now sdk self config config_path st = (Inl e, st')"
  shows "files st' = files st"
  using assms
  by (auto simp: get_access_token_def Let_def write_config_def
      split: sum.splits bool.splits if_splits)

lemma get_access_token_cached:
  assumes "require_new_access_token strptime_with_tz now
             (dict_get (heap st config) ''access_token'')
             (retrieve_token_status sdk (environment self)) = Inr False"
  shows "get_access_token strptime_with_tz now sdk self config config_path st
           = (Inr (dict_get (heap st config) ''access_token''), st)"
  using assms by (simp add: get_access_token_def Let_def)

text \<open>
  C9. When a refresh is required and the token endpoint answers with a new pair of tokens
  (and the file can be written), the document written to the config path has the new
  access token and the new refresh token, and every other key has the value the config
  had before. The file is left as it was whenever \<^verbatim>\<open>_get_access_token\<close> fails, and the
  whole state is when no refresh is required.
\<close>

theorem get_access_token_persists_merged_config:
  "(require_new_access_token strptime_with_tz now
       (dict_get (heap st config) ''access_token'')
       (retrieve_token_status sdk (environment self)) = Inr True
     \<and> obtain_token sdk (environment self)
         [(''client_id'', client_id self), (''client_secret'', client_secret self),
          (''grant_type'', PStr ''refresh_token''),
          (''refresh_token'', refresh_token self)] = result
     \<and> \<not> is_error result
     \<and> py_getitem (body result) ''access_token'' = Inr a
     \<and> py_getitem (body result) ''refresh_token'' = Inr b
     \<and> config_path \<notin> unwritable st
    \<longrightarrow> fst (get_access_token strptime_with_tz now sdk self config config_path st) = Inr a
       \<and> (\<exists>written.
             files (snd (get_access_token strptime_with_tz now sdk self config config_path st))
               config_path = Some written
             \<and> map_of written ''access_token'' = Some a
             \<and> map_of written ''refresh_token'' = Some b
             \<and> (\<forall>k. k \<noteq> ''access_token'' \<and> k \<noteq> ''refresh_token''
                    \<longrightarrow> map_of written k = map_of (heap st config) k)))
   \<and> (\<forall>e st'. get_access_token strptime_with_tz now sdk self config config_path st
                 = (Inl e, st')
         \<longrightarrow> files st' = files st)
   \<and> (require_new_access_token strptime_with_tz now
        (dict_get (heap st config) ''access_token'')
        (retrieve_token_status sdk (environment self)) = Inr False
      \<longrightarrow> snd (get_access_token strptime_with_tz now sdk self config config_path st) = st)"
proof (intro conjI impI allI)
  assume h: "require_new_access_token strptime_with_tz now
       (dict_get (heap st config) ''access_token'')
       (retrieve_token_status sdk (environment self)) = Inr True
     \<and> obtain_token sdk (environment self)
         [(''client_id'', client_id self), (''client_secret'', client_secret self),
          (''grant_type'', PStr ''refresh_token''),
          (''refresh_token'', refresh_token self)] = result
     \<and> \<not> is_error result
     \<and> py_getitem (body result) ''access_token'' = Inr a
     \<and> py_getitem (body result) ''refresh_token'' = Inr b
     \<and> config_path \<notin> unwritable st"
  let ?data = "[(''access_token'', a), (''refresh_token'', b)]"
  let ?w = "write_config config config_path ?data st"
  from h have w: "?w = (Inr config, snd ?w)"
    using write_config_result [of config config_path ?data st] by (cases ?w) simp
  from h have g: "get_access_token strptime_with_tz now sdk self config config_path st
                    = (Inr a, snd ?w)"
    using get_access_token_refresh [of strptime_with_tz now st config sdk self result a b
        config_path] w
    by (cases ?w) auto
  show "fst (get_access_token strptime_with_tz now sdk self config config_path st) = Inr a"
    by (simp add: g)
  let ?written = "dict_update (heap st config) ?data"
  have f: "files (snd ?w) config_path = Some ?written"
    using h by (simp add: write_config_files)
  have "map_of ?written ''access_token'' = Some a"
    and "map_of ?written ''refresh_token'' = Some b"
    and "\<forall>k. k \<noteq> ''access_token'' \<and> k \<noteq> ''refresh_token''
             \<longrightarrow> map_of ?written k = map_of (heap st config) k"
    by (simp_all add: map_of_dict_set)
  with f show "\<exists>written.
      files (snd (get_access_token strptime_with_tz now sdk self config config_path st))
        config_path = Some written
      \<and> map_of written ''access_token'' = Some a
      \<and> map_of written ''refresh_token'' = Some b
      \<and> (\<forall>k. k \<noteq> ''access_token'' \<and> k \<noteq> ''refresh_token''
             \<longrightarrow> map_of written k = map_of (heap st config) k)"
    unfolding g by (intro exI [of _ ?written]) simp
next
  fix e st'
  assume "get_access_token strptime_with_tz now sdk self config config_path st = (Inl e, st')"
  then show "files st' = files st"
    by (rule get_access_token_files_kept)
next
  assume "require_new_access_token strptime_with_tz now
        (dict_get (heap st config) ''access_token'')
        (retrieve_token_status sdk (environment self)) = Inr False"
  then show "snd (get_access_token strptime_with_tz now sdk self config config_path st) = st"
    by (simp add: get_access_token_cached)
qed

lemma require_new_access_token_config0:
  "require_new_access_token parse_expiry t (dict_get (heap store0 0) ''access_token'')
     (retrieve_token_status sdk0 (environment self0)) = Inr True"
  by (simp add: require_new_access_token_def store0_def config0_def dict_get_def)

theorem get_access_token_persists_merged_config_witness:
  "fst (get_access_token parse_expiry 0 sdk0 self0 0 ''config.json'' store0)
     = Inr (PStr ''new-access'')
   \<and> (\<exists>written.
         files (snd (get_access_token parse_expiry 0 sdk0 self0 0 ''config.json'' store0))
           ''config.json'' = Some written
         \<and> map_of written ''access_token'' = Some (PStr ''new-access'')
         \<and> map_of written ''refresh_token'' = Some (PStr ''new-refresh'')
         \<and> map_of written ''client_id'' = Some (PStr ''id'')
         \<and> map_of written ''client_secret'' = Some (PStr ''secret'')
         \<and> map_of written ''start_date'' = Some (PStr ''2023-01-01T00:00:00Z'')
         \<and> map_of written ''sandbox'' = Some (PStr ''true''))"
proof -
  note inst = get_access_token_persists_merged_config
    [of parse_expiry 0 store0 0 sdk0 self0 new_tokens "PStr ''new-access''"
      "PStr ''new-refresh''" "''config.json''"]
  have "obtain_token sdk0 (environment self0)
         [(''client_id'', client_id self0), (''client_secret'', client_secret self0),
          (''grant_type'', PStr ''refresh_token''),
          (''refresh_token'', refresh_token self0)] = new_tokens"
    and "\<not> is_error new_tokens"
    and "py_getitem (body new_tokens) ''access_token'' = Inr (PStr ''new-access'')"
    and "py_getitem (body new_tokens) ''refresh_token'' = Inr (PStr ''new-refresh'')"
    and "''config.json'' \<notin> unwritable store0"
    by (simp_all add: sdk0_def new_tokens_def store0_def)
  with inst require_new_access_token_config0 [of 0]
  have 1: "fst (get_access_token parse_expiry 0 sdk0 self0 0 ''config.json'' store0)
             = Inr (PStr ''new-access'')"
    and 2: "\<exists>written.
         files (snd (get_access_token parse_expiry 0 sdk0 self0 0 ''config.json'' store0))
           ''config.json'' = Some written
         \<and> map_of written ''access_token'' = Some (PStr ''new-access'')
         \<and> map_of written ''refresh_token'' = Some (PStr ''new-refresh'')
         \<and> (\<forall>k. k \<noteq> ''access_token'' \<and> k \<noteq> ''refresh_token''
                \<longrightarrow> map_of written k = map_of (heap store0 0) k)"
    by blast+
  from 2 obtain written where w:
    "files (snd (get_access_token parse_expiry 0 sdk0 self0 0 ''config.json'' store0))
       ''config.json'' = Some written"
    "map_of written ''access_token'' = Some (PStr ''new-access'')"
    "map_of written ''refresh_token'' = Some (PStr ''new-refresh'')"
    "\<forall>k. k \<noteq> ''access_token'' \<and> k \<noteq> ''refresh_token''
         \<longrightarrow> map_of written k = map_of (heap store0 0) k"
    by blast
  from w(4) have "map_of written ''client_id'' = Some (PStr ''id'')"
    and "map_of written ''client_secret'' = Some (PStr ''secret'')"
    and "map_of written ''start_date'' = Some (PStr ''2023-01-01T00:00:00Z'')"
    and "map_of written ''sandbox'' = Some (PStr ''true'')"
    by (simp_all add: store0_def config0_def)
  with 1 w(1,2,3) show ?thesis by blast
qed

section \<open>The caller's config object\<close>

lemma init_refresh:
  assumes "init strptime_with_tz now sdk config config_path st = (Inr client, st')"
  shows "get_access_token strptime_with_tz now sdk (client\<lparr>access_token := PNone\<rparr>)
           config config_path st = (Inr (access_token client), st')"
  using assms
  by (auto simp: init_def Let_def split: sum.splits prod.splits)

lemma get_access_token_refreshed_heap:
  assumes "get_access_token strptime_with_tz now sdk self config config_path st
             = (Inr token, st')"
    and "require_new_access_token strptime_with_tz now
           (dict_get (heap st config) ''access_token'')
           (retrieve_token_status sdk (environment self)) = Inr True"
  shows "\<exists>b. py_getitem (body (obtain_token sdk (environment self)
                 [(''client_id'', client_id self), (''client_secret'', client_secret self),
                  (''grant_type'', PStr ''refresh_token''),
                  (''refresh_token'', refresh_token self)])) ''access_token'' = Inr token
           \<and> py_getitem (body (obtain_token sdk (environment self)
                 [(''client_id'', client_id self), (''client_secret'', client_secret self),
                  (''grant_type'', PStr ''refresh_token''),
                  (''refresh_token'', refresh_token self)])) ''refresh_token'' = Inr b
           \<and> heap st' = (heap st)(config := dict_update (heap st config)
                 [(''access_token'', token), (''refresh_token'', b)])"
  using assms
  by (auto simp: get_access_token_def Let_def write_config_def
      split: sum.splits if_splits)

text \<open>
  C10. \<^verbatim>\<open>write_config\<close> updates the dict behind the reference it is given, touches no
  other object, and returns that reference (when the file can be written, which then
  holds the updated dict). So when the constructor succeeds on a config that required a
  refresh, the caller's config object holds the access token the client now has and the
  refresh token that came with it.
\<close>

theorem write_config_updates_callers_config:
  "heap (snd (write_config config config_path data st)) config
     = dict_update (heap st config) data
   \<and> (\<forall>other. other \<noteq> config
         \<longrightarrow> heap (snd (write_config config config_path data st)) other = heap st other)
   \<and> (config_path \<notin> unwritable st
        \<longrightarrow> fst (write_config config config_path data st) = Inr config)
   \<and> (init strptime_with_tz now sdk config config_path st = (Inr client, st')
        \<and> require_new_access_token strptime_with_tz now
            (dict_get (heap st config) ''access_token'')
            (retrieve_token_status sdk (environment client)) = Inr True
      \<longrightarrow> map_of (heap st' config) ''access_token'' = Some (access_token client)
          \<and> (\<exists>b. py_getitem (body (obtain_token sdk (environment client)
                    [(''client_id'', client_id client),
                     (''client_secret'', client_secret client),
                     (''grant_type'', PStr ''refresh_token''),
                     (''refresh_token'', refresh_token client)])) ''refresh_token'' = Inr b
                \<and> map_of (heap st' config) ''refresh_token'' = Some b)
          \<and> (\<forall>other. other \<noteq> config \<longrightarrow> heap st' other = heap st other))"
proof (intro conjI impI allI)
  show "heap (snd (write_config config config_path data st)) config
          = dict_update (heap st config) data"
    by (simp add: write_config_heap)
next
  fix other :: nat
  assume "other \<noteq> config"
  then show "heap (snd (write_config config config_path data st)) other = heap st other"
    by (simp add: write_config_heap)
next
  assume "config_path \<notin> unwritable st"
  then show "fst (write_config config config_path data st) = Inr config"
    by (simp add: write_config_result)
next
  assume h: "init strptime_with_tz now sdk config config_path st = (Inr client, st')
        \<and> require_new_access_token strptime_with_tz now
            (dict_get (heap st config) ''access_token'')
            (retrieve_token_status sdk (environment client)) = Inr True"
  define self where "self = client\<lparr>access_token := PNone\<rparr>"
  have s: "environment self = environment client"
      "client_id self = client_id client" "client_secret self = client_secret client"
      "refresh_token self = refresh_token client"
      "get_access_token strptime_with_tz now sdk self config config_path st
         = (Inr (access_token client), st')"
    using h init_refresh [of strptime_with_tz now sdk config config_path st client st']
    by (simp_all add: self_def)
  from h s have "require_new_access_token strptime_with_tz now
           (dict_get (heap st config) ''access_token'')
           (retrieve_token_status sdk (environment self)) = Inr True"
    by simp
  from get_access_token_refreshed_heap [OF s(5) this] s(1-4)
  obtain b where b:
    "py_getitem (body (obtain_token sdk (environment client)
        [(''client_id'', client_id client), (''client_secret'', client_secret client),
         (''grant_type'', PStr ''refresh_token''),
         (''refresh_token'', refresh_token client)])) ''refresh_token'' = Inr b"
    "heap st' = (heap st)(config := dict_update (heap st config)
        [(''access_token'', access_token client), (''refresh_token'', b)])"
    by auto
  from b(2) show "map_of (heap st' config) ''access_token'' = Some (access_token client)"
    by (simp add: map_of_dict_set)
  from b show "\<exists>b. py_getitem (body (obtain_token sdk (environment client)
                    [(''client_id'', client_id client),
                     (''client_secret'', client_secret client),
                     (''grant_type'', PStr ''refresh_token''),
                     (''refresh_token'', refresh_token client)])) ''refresh_token'' = Inr b
                \<and> map_of (heap st' config) ''refresh_token'' = Some b"
    by (intro exI [of _ b]) (simp add: map_of_dict_set)
  fix other :: nat
  assume "other \<noteq> config"
  with b(2) show "heap st' other = heap st other"
    by simp
qed

lemma init_store0:
  "fst (init parse_expiry 0 sdk0 0 ''config.json'' store0)
     = Inr (self0\<lparr>access_token := PStr ''new-access''\<rparr>)"
  by (simp add: init_def get_access_token_def require_new_access_token_def write_config_def
      dict_item_def dict_get_def store0_def config0_def sdk0_def new_tokens_def self0_def
      Let_def)

theorem write_config_updates_callers_config_witness:
  "heap (snd (write_config 0 ''config.json'' [(''access_token'', PStr ''t'')] store0)) 0
     = config0 @ [(''access_token'', PStr ''t'')]
   \<and> heap (snd (write_config 0 ''config.json'' [(''access_token'', PStr ''t'')] store0)) 1
       = heap store0 1
   \<and> fst (write_config 0 ''config.json'' [(''access_token'', PStr ''t'')] store0) = Inr 0
   \<and> map_of (heap (snd (init parse_expiry 0 sdk0 0 ''config.json'' store0)) 0)
        ''access_token'' = Some (PStr ''new-access'')
   \<and> map_of (heap (snd (init parse_expiry 0 sdk0 0 ''config.json'' store0)) 0)
        ''refresh_token'' = Some (PStr ''new-refresh'')"
proof -
  let ?client = "self0\<lparr>access_token := PStr ''new-access''\<rparr>"
  let ?st' = "snd (init parse_expiry 0 sdk0 0 ''config.json'' store0)"
  note inst = write_config_updates_callers_config
    [of 0 "''config.json''" "[(''access_token'', PStr ''t'')]" store0 parse_expiry 0 sdk0
      ?client ?st']
  have i: "init parse_expiry 0 sdk0 0 ''config.json'' store0 = (Inr ?client, ?st')"
    using init_store0 by (cases "init parse_expiry 0 sdk0 0 ''config.json'' store0") simp
  have r: "require_new_access_token parse_expiry 0 (dict_get (heap store0 0) ''access_token'')
             (retrieve_token_status sdk0 (environment ?client)) = Inr True"
    using require_new_access_token_config0 [of 0] by (simp add: self0_def)
  have w: "''config.json'' \<notin> unwritable store0" and n: "(1::nat) \<noteq> 0"
    by (simp_all add: store0_def)
  from inst have 1:
    "heap (snd (write_config 0 ''config.json'' [(''access_token'', PStr ''t'')] store0)) 0
       = dict_update (heap store0 0) [(''access_token'', PStr ''t'')]"
    by blast
  then have 1: "heap (snd (write_config 0 ''config.json'' [(''access_token'', PStr ''t'')]
                  store0)) 0 = config0 @ [(''access_token'', PStr ''t'')]"
    by (simp add: store0_def config0_def)
  from inst n have 2:
    "heap (snd (write_config 0 ''config.json'' [(''access_token'', PStr ''t'')] store0)) 1
       = heap store0 1"
    by blast
  from inst w have 3:
    "fst (write_config 0 ''config.json'' [(''access_token'', PStr ''t'')] store0) = Inr 0"
    by blast
  from inst i r have 4: "map_of (heap ?st' 0) ''access_token'' = Some (access_token ?client)"
    and 5: "\<exists>b. py_getitem (body (obtain_token sdk0 (environment ?client)
                    [(''client_id'', client_id ?client),
                     (''client_secret'', client_secret ?client),
                     (''grant_type'', PStr ''refresh_token''),
                     (''refresh_token'', refresh_token ?client)])) ''refresh_token'' = Inr b
                \<and> map_of (heap ?st' 0) ''refresh_token'' = Some b"
    by blast+
  from 5 have 5: "map_of (heap ?st' 0) ''refresh_token'' = Some (PStr ''new-refresh'')"
    by (auto simp: sdk0_def new_tokens_def)
  from 4 have 4: "map_of (heap ?st' 0) ''access_token'' = Some (PStr ''new-access'')"
    by simp
  from 1 2 3 4 5 show ?thesis by blast
qed

section \<open>Runs of the v2 paginator\<close>

lemma v2_loop_falsy: "\<not> truthy cursor \<Longrightarrow> v2_loop n call k cursor b w = stopped Exhausted w"
  by (cases n) simp_all

lemma v2_loop_count:
  "ending (v2_loop n call k cursor b w) = Exhausted \<Longrightarrow>
     length (requests (v2_loop n call k cursor b w))
       = (if truthy cursor then 1 else 0)
         + length (filter truthy (map snd (pages (v2_loop n call k cursor b w))))"
proof (induction n arbitrary: cursor b w)
  case 0
  then show ?case by (simp split: if_splits)
next
  case (Suc n)
  then show ?case
    by (auto simp: Let_def split: if_splits prod.splits sum.splits)
qed

lemma v2_loop_pages_requests:
  "length (requests (v2_loop n call k cursor b w))
     = length (pages (v2_loop n call k cursor b w))
       + (case ending (v2_loop n call k cursor b w) of Raised e \<Rightarrow> 1 | _ \<Rightarrow> 0)"
proof (induction n arbitrary: cursor b w)
  case 0
  then show ?case by (simp split: if_splits)
next
  case (Suc n)
  then show ?case
    by (auto simp: Let_def split: if_splits prod.splits sum.splits)
qed

lemma v2_loop_no_marker:
  "map_of b ''cursor'' \<noteq> Some (PStr initial_cursor) \<Longrightarrow>
     q \<in> set (requests (v2_loop n call k cursor b w)) \<Longrightarrow>
     map_of q ''cursor'' \<noteq> Some (PStr initial_cursor)"
proof (induction n arbitrary: cursor b w)
  case 0
  then show ?case by simp
next
  case (Suc n)
  show ?case
  proof (cases "truthy cursor")
    case False
    with Suc.prems show ?thesis by simp
  next
    case True
    define b' where "b' = (if cursor \<noteq> PStr initial_cursor then dict_set b ''cursor'' cursor else b)"
    have b': "map_of b' ''cursor'' \<noteq> Some (PStr initial_cursor)"
      using Suc.prems(1) by (simp add: b'_def map_of_dict_set)
    show ?thesis
    proof (cases "call b' w")
      case (Pair res w')
      show ?thesis
      proof (cases res)
        case (Inl e)
        with Suc.prems True Pair b' show ?thesis
          by (auto simp: Let_def b'_def[symmetric])
      next
        case (Inr result)
        with Suc.prems True Pair b' Suc.IH [where b = b' and w = w'] show ?thesis
          by (auto simp: Let_def b'_def[symmetric] split: sum.splits)
      qed
    qed
  qed
qed

lemma v2_loop_frame:
  "key \<noteq> ''cursor'' \<Longrightarrow> q \<in> set (requests (v2_loop n call k cursor b w)) \<Longrightarrow>
     map_of q key = map_of b key"
proof (induction n arbitrary: cursor b w)
  case 0
  then show ?case by simp
next
  case (Suc n)
  show ?case
  proof (cases "truthy cursor")
    case False
    with Suc.prems show ?thesis by simp
  next
    case True
    define b' where "b' = (if cursor \<noteq> PStr initial_cursor then dict_set b ''cursor'' cursor else b)"
    have b': "map_of b' key = map_of b key"
      using Suc.prems(1) by (simp add: b'_def map_of_dict_set)
    show ?thesis
    proof (cases "call b' w")
      case (Pair res w')
      show ?thesis
      proof (cases res)
        case (Inl e)
        with Suc.prems True Pair b' show ?thesis
          by (auto simp: Let_def b'_def[symmetric])
      next
        case (Inr result)
        with Suc.prems True Pair b' Suc.IH [where b = b' and w = w'] show ?thesis
          by (auto simp: Let_def b'_def[symmetric] split: sum.splits)
      qed
    qed
  qed
qed

lemma v2_loop_cursor_absent:
  assumes "truthy cursor"
    and "call (if cursor \<noteq> PStr initial_cursor then dict_set b ''cursor'' cursor else b) w
           = (Inr result, w')"
    and "body result = PDict d" and "map_of d ''cursor'' = None"
  shows "v2_loop (Suc n) call k cursor b w
           = \<lparr>pages = [(dict_get_default d k (PList []), PNone)],
              requests = [if cursor \<noteq> PStr initial_cursor then dict_set b ''cursor'' cursor else b],
              ending = Exhausted, world = w'\<rparr>"
  using assms
  by (simp add: Let_def dict_get_default_def v2_loop_falsy emit_def stopped_def)

lemma v2_loop_first:
  assumes "truthy cursor"
  shows "requests (v2_loop (Suc n) call k cursor b w) \<noteq> []
     \<and> hd (requests (v2_loop (Suc n) call k cursor b w))
         = (if cursor \<noteq> PStr initial_cursor then dict_set b ''cursor'' cursor else b)
     \<and> (pages (v2_loop (Suc n) call k cursor b w) = []
          \<longrightarrow> (\<exists>e. ending (v2_loop (Suc n) call k cursor b w) = Raised e))"
  using assms
  by (auto simp: Let_def split: prod.splits sum.splits)


lemma scripted_three_pages_run:
  "get_v2_objects 5 0 scripted body0 ''objects'' (three_pages ''objects'')
     = \<lparr>pages = [(PList [PStr ''r1'', PStr ''r2''], PStr ''c1''),
                 (PList [PStr ''r3''], PStr ''c2''),
                 (PList [PStr ''r4''], PNone)],
        requests = [[(''limit'', PInt 200)],
                    [(''limit'', PInt 200), (''cursor'', PStr ''c1'')],
                    [(''limit'', PInt 200), (''cursor'', PStr ''c2'')]],
        ending = Exhausted, world = []\<rparr>"
  by (simp add: get_v2_objects_def eval_nat_numeral retried_def retryable_v2_method_def
      v2_method_def page_def three_pages_def body0_def dict_get_default_def
      initial_cursor_def emit_def stopped_def Let_def)

text \<open>
  C3, as the claim states it, fails where a cursor is empty rather than none. A caller
  that puts an empty cursor into the body gets no page and no request, where the claim
  promises at least one page. And a server that answers with the cursor \<^verbatim>\<open>""\<close> has
  returned one cursor that is not none, yet the run makes the initial request only.
\<close>

theorem get_v2_objects_empty_cursor:
  "get_v2_objects 5 0 scripted [(''limit'', PInt 200), (''cursor'', PStr [])] ''objects''
     (three_pages ''objects'')
     = \<lparr>pages = [], requests = [], ending = Exhausted, world = three_pages ''objects''\<rparr>
   \<and> get_v2_objects 5 0 scripted body0 ''objects''
       [page ''objects'' [PStr ''r1''] (Some (PStr [])), page ''objects'' [PStr ''r2''] None]
     = \<lparr>pages = [(PList [PStr ''r1''], PStr [])], requests = [body0], ending = Exhausted,
        world = [page ''objects'' [PStr ''r2''] None]\<rparr>"
  by (simp add: get_v2_objects_def eval_nat_numeral retried_def retryable_v2_method_def
      v2_method_def page_def body0_def dict_get_default_def
      initial_cursor_def emit_def stopped_def Let_def)

text \<open>
  C3, amended. For every request method, body and world, in a run of
  \<^verbatim>\<open>_get_v2_objects\<close>:
  \<^item> when the body has no cursor or a non-empty one and the run ends by exhaustion, every
    request has yielded a page, and there is one request for each non-empty (truthy)
    cursor returned plus the initial one;
  \<^item> no request body has \<^verbatim>\<open>__initial__\<close> as its cursor, unless the caller's body had it;
  \<^item> when the body has no cursor key, a request is made with the body as it is, and a
    page is yielded unless that request raises;
  \<^item> at any iteration, an answer without a cursor key yields its records with the
    cursor none and ends the run;
  \<^item> when the body holds an empty or none cursor, the run ends before any request.
\<close>

theorem get_v2_objects_paging:
  fixes request_method :: "dict \<Rightarrow> 'w \<Rightarrow> (exn + response) \<times> 'w"
  defines "R n max_time bdy body_key w \<equiv>
             get_v2_objects n max_time request_method bdy body_key w"
  shows
  "(truthy (dict_get_default bdy ''cursor'' (PStr initial_cursor))
      \<and> ending (R n max_time bdy body_key w) = Exhausted
     \<longrightarrow> length (pages (R n max_time bdy body_key w))
           = length (requests (R n max_time bdy body_key w))
         \<and> length (requests (R n max_time bdy body_key w))
           = 1 + length (filter truthy (map snd (pages (R n max_time bdy body_key w)))))
   \<and> (map_of bdy ''cursor'' \<noteq> Some (PStr initial_cursor)
     \<longrightarrow> (\<forall>q \<in> set (requests (R n max_time bdy body_key w)).
            map_of q ''cursor'' \<noteq> Some (PStr initial_cursor)))
   \<and> (map_of bdy ''cursor'' = None \<and> 0 < n
     \<longrightarrow> requests (R n max_time bdy body_key w) \<noteq> []
         \<and> hd (requests (R n max_time bdy body_key w)) = bdy
         \<and> (pages (R n max_time bdy body_key w) = []
              \<longrightarrow> (\<exists>e. ending (R n max_time bdy body_key w) = Raised e)))
   \<and> (truthy cursor
       \<and> retried max_time request_method
           (if cursor \<noteq> PStr initial_cursor then dict_set b ''cursor'' cursor else b) w
           = (Inr result, w')
       \<and> body result = PDict d \<and> map_of d ''cursor'' = None
     \<longrightarrow> v2_loop (Suc m) (retried max_time request_method) body_key cursor b w
           = \<lparr>pages = [(dict_get_default d body_key (PList []), PNone)],
              requests = [if cursor \<noteq> PStr initial_cursor then dict_set b ''cursor'' cursor
                          else b],
              ending = Exhausted, world = w'\<rparr>)
   \<and> (map_of bdy ''cursor'' = Some c \<and> \<not> truthy c
     \<longrightarrow> R n max_time bdy body_key w = stopped Exhausted w)"
proof (intro conjI impI)
  let ?start = "dict_get_default bdy ''cursor'' (PStr initial_cursor)"
  let ?call = "retried max_time request_method"
  have R: "R n max_time bdy body_key w = v2_loop n ?call body_key ?start bdy w"
    by (simp add: R_def get_v2_objects_def)
  {
    assume h: "truthy ?start \<and> ending (R n max_time bdy body_key w) = Exhausted"
    then show "length (pages (R n max_time bdy body_key w))
                 = length (requests (R n max_time bdy body_key w))"
      using v2_loop_pages_requests [of n ?call body_key ?start bdy w] by (simp add: R)
    from h show "length (requests (R n max_time bdy body_key w))
          = 1 + length (filter truthy (map snd (pages (R n max_time bdy body_key w))))"
      using v2_loop_count [of n ?call body_key ?start bdy w] by (simp add: R)
  }
  {
    assume "map_of bdy ''cursor'' \<noteq> Some (PStr initial_cursor)"
    then show "\<forall>q \<in> set (requests (R n max_time bdy body_key w)).
                 map_of q ''cursor'' \<noteq> Some (PStr initial_cursor)"
      unfolding R using v2_loop_no_marker [of bdy _ n ?call body_key ?start w] by blast
  }
  {
    assume h: "map_of bdy ''cursor'' = None \<and> 0 < n"
    then obtain k where n: "n = Suc k"
      by (cases n) auto
    from h have s: "?start = PStr initial_cursor"
      by (simp add: dict_get_default_def)
    then have t: "truthy ?start"
      by (simp add: initial_cursor_def)
    have R': "R n max_time bdy body_key w = v2_loop (Suc k) ?call body_key ?start bdy w"
      by (simp only: R_def get_v2_objects_def n)
    note first = v2_loop_first [OF t, of k ?call body_key bdy w, folded R']
    from first show "requests (R n max_time bdy body_key w) \<noteq> []"
      by blast
    from first s show "hd (requests (R n max_time bdy body_key w)) = bdy"
      by simp
    assume "pages (R n max_time bdy body_key w) = []"
    with first show "\<exists>e. ending (R n max_time bdy body_key w) = Raised e"
      by blast
  }
  {
    assume "truthy cursor
       \<and> retried max_time request_method
           (if cursor \<noteq> PStr initial_cursor then dict_set b ''cursor'' cursor else b) w
           = (Inr result, w')
       \<and> body result = PDict d \<and> map_of d ''cursor'' = None"
    then show "v2_loop (Suc m) (retried max_time request_method) body_key cursor b w
           = \<lparr>pages = [(dict_get_default d body_key (PList []), PNone)],
              requests = [if cursor \<noteq> PStr initial_cursor then dict_set b ''cursor'' cursor
                          else b],
              ending = Exhausted, world = w'\<rparr>"
      using v2_loop_cursor_absent [of cursor ?call b w result w' d m body_key] by blast
  }
  {
    assume "map_of bdy ''cursor'' = Some c \<and> \<not> truthy c"
    then show "R n max_time bdy body_key w = stopped Exhausted w"
      by (simp add: R dict_get_default_def v2_loop_falsy)
  }
qed

theorem get_v2_objects_paging_witness:
  "length (pages (get_v2_objects 5 0 scripted body0 ''objects'' (three_pages ''objects'')))
     = length (requests (get_v2_objects 5 0 scripted body0 ''objects''
         (three_pages ''objects'')))
   \<and> length (requests (get_v2_objects 5 0 scripted body0 ''objects''
         (three_pages ''objects'')))
     = 1 + length (filter truthy (map snd (pages (get_v2_objects 5 0 scripted body0
         ''objects'' (three_pages ''objects'')))))
   \<and> map_of (requests (get_v2_objects 5 0 scripted body0 ''objects''
         (three_pages ''objects'')) ! 1) ''cursor'' \<noteq> Some (PStr initial_cursor)
   \<and> requests (get_v2_objects 5 0 scripted body0 ''objects'' (three_pages ''objects''))
     \<noteq> []
   \<and> hd (requests (get_v2_objects 5 0 scripted body0 ''objects''
         (three_pages ''objects''))) = body0
   \<and> v2_loop (Suc 0) (retried 0 scripted) ''objects'' (PStr ''c2'')
        [(''limit'', PInt 200), (''cursor'', PStr ''c1'')]
        [page ''objects'' [PStr ''r4''] None]
     = \<lparr>pages = [(PList [PStr ''r4''], PNone)],
        requests = [[(''limit'', PInt 200), (''cursor'', PStr ''c2'')]],
        ending = Exhausted, world = []\<rparr>
   \<and> get_v2_objects 5 0 scripted [(''cursor'', PNone)] ''objects'' (three_pages ''objects'')
     = stopped Exhausted (three_pages ''objects'')"
proof -
  let ?R = "get_v2_objects 5 0 scripted body0 ''objects'' (three_pages ''objects'')"
  note run = get_v2_objects_paging
    [where request_method = scripted and n = 5 and max_time = 0 and bdy = body0
       and body_key = "''objects''" and w = "three_pages ''objects''"]
  note last = get_v2_objects_paging
    [where request_method = scripted and max_time = 0 and body_key = "''objects''"
       and cursor = "PStr ''c2''" and b = "[(''limit'', PInt 200), (''cursor'', PStr ''c1'')]"
       and w = "[page ''objects'' [PStr ''r4''] None]"
       and result = "page ''objects'' [PStr ''r4''] None" and w' = "[]"
       and d = "[(''objects'', PList [PStr ''r4''])]" and m = 0]
  note none = get_v2_objects_paging
    [where request_method = scripted and n = 5 and max_time = 0
       and bdy = "[(''cursor'', PNone)]" and body_key = "''objects''"
       and w = "three_pages ''objects''" and c = PNone]
  have start: "truthy (dict_get_default body0 ''cursor'' (PStr initial_cursor))"
    "map_of body0 ''cursor'' \<noteq> Some (PStr initial_cursor)"
    "map_of body0 ''cursor'' = None" "(0::nat) < 5"
    by (simp_all add: body0_def dict_get_default_def initial_cursor_def)
  have fin: "ending ?R = Exhausted" and mem: "requests ?R ! 1 \<in> set (requests ?R)"
    by (simp_all add: scripted_three_pages_run)
  from run start fin have 1: "length (pages ?R) = length (requests ?R)"
    and 2: "length (requests ?R) = 1 + length (filter truthy (map snd (pages ?R)))"
    by blast+
  from run start(2) mem
  have 3: "map_of (requests ?R ! 1) ''cursor'' \<noteq> Some (PStr initial_cursor)"
    by blast
  from run start(3,4) have 4: "requests ?R \<noteq> []" and 5: "hd (requests ?R) = body0"
    by blast+
  have "retried 0 scripted
          (if PStr ''c2'' \<noteq> PStr initial_cursor
           then dict_set [(''limit'', PInt 200), (''cursor'', PStr ''c1'')] ''cursor''
                  (PStr ''c2'')
           else [(''limit'', PInt 200), (''cursor'', PStr ''c1'')])
          [page ''objects'' [PStr ''r4''] None]
          = (Inr (page ''objects'' [PStr ''r4''] None), [])"
    and "body (page ''objects'' [PStr ''r4''] None) = PDict [(''objects'', PList [PStr ''r4''])]"
    and "map_of [(''objects'', PList [PStr ''r4''])] ''cursor'' = None"
    and "truthy (PStr ''c2'')"
    by (simp_all add: retried_def retryable_v2_method_def v2_method_def page_def)
  with last have "v2_loop (Suc 0) (retried 0 scripted) ''objects'' (PStr ''c2'')
        [(''limit'', PInt 200), (''cursor'', PStr ''c1'')]
        [page ''objects'' [PStr ''r4''] None]
     = \<lparr>pages = [(dict_get_default [(''objects'', PList [PStr ''r4''])] ''objects''
                    (PList []), PNone)],
        requests = [if PStr ''c2'' \<noteq> PStr initial_cursor
                    then dict_set [(''limit'', PInt 200), (''cursor'', PStr ''c1'')] ''cursor''
                           (PStr ''c2'')
                    else [(''limit'', PInt 200), (''cursor'', PStr ''c1'')]],
        ending = Exhausted, world = []\<rparr>"
    by blast
  then have 6: "v2_loop (Suc 0) (retried 0 scripted) ''objects'' (PStr ''c2'')
        [(''limit'', PInt 200), (''cursor'', PStr ''c1'')]
        [page ''objects'' [PStr ''r4''] None]
     = \<lparr>pages = [(PList [PStr ''r4''], PNone)],
        requests = [[(''limit'', PInt 200), (''cursor'', PStr ''c2'')]],
        ending = Exhausted, world = []\<rparr>"
    by (simp add: dict_get_default_def initial_cursor_def)
  have "map_of [(''cursor'', PNone)] ''cursor'' = Some PNone" and "\<not> truthy PNone"
    by simp_all
  with none have 7: "get_v2_objects 5 0 scripted [(''cursor'', PNone)] ''objects''
      (three_pages ''objects'') = stopped Exhausted (three_pages ''objects'')"
    by blast
  from 1 2 3 4 5 6 7 show ?thesis
    by blast
qed

section \<open>Resuming from a yielded cursor\<close>

lemma v2_method_fst:
  "fst (rm b w) = fst (rm' b' w') \<Longrightarrow> fst (v2_method rm b w) = fst (v2_method rm' b' w')"
  by (cases "rm b w"; cases "rm' b' w'") (auto simp: v2_method_def split: sum.splits)

lemma on_exception_fst:
  assumes "\<And>w w'. fst (f w) = fst (g w')"
  shows "fst (on_exception C G f n w) = fst (on_exception C G g n w')"
proof (induction n arbitrary: w w')
  case 0
  from assms [of w w'] show ?case
    by (cases "f w"; cases "g w'") simp
next
  case (Suc n)
  obtain r w1 where f: "f w = (r, w1)" by (cases "f w")
  obtain r' w1' where g: "g w' = (r', w1')" by (cases "g w'")
  from assms [of w w'] f g have r: "r' = r" by simp
  show ?case
  proof (cases r)
    case (Inr x)
    with f g r show ?thesis by simp
  next
    case (Inl e)
    with f g r Suc.IH [of w1 w1'] show ?thesis
      by (auto split: prod.splits)
  qed
qed

lemma fst_retried: "fst (retried n rm b w) = fst (retryable_v2_method n rm b w)"
  by (cases "retryable_v2_method n rm b w") (simp add: retried_def)

lemma v2_loop_pages_truthy:
  "i < length (pages (v2_loop n call k cur b w)) \<Longrightarrow> truthy cur"
  by (rule ccontr) (simp add: v2_loop_falsy del: v2_loop.simps)

lemma retried_fst:
  assumes "\<And>w w'. fst (rm b w) = fst (rm' b' w')"
  shows "fst (retried n rm b w) = fst (retried n rm' b' w')"
proof -
  have "fst (on_exception is_RetryableError should_not_retry (v2_method rm b) n w)
      = fst (on_exception is_RetryableError should_not_retry (v2_method rm' b') n w')"
    by (rule on_exception_fst) (rule v2_method_fst, rule assms)
  then show ?thesis
    by (simp add: fst_retried retryable_v2_method_def)
qed

lemma stateless_retried: "stateless rm \<Longrightarrow> stateless (retried n rm)"
  unfolding stateless_def by (intro allI retried_fst) simp

lemma v2_loop_pages_stateless:
  assumes "stateless call"
  shows "pages (v2_loop n call k c b w) = pages (v2_loop n call k c b w')"
proof (induction n arbitrary: c b w w')
  case 0
  show ?case by simp
next
  case (Suc n)
  show ?case
  proof (cases "truthy c")
    case False
    then show ?thesis by simp
  next
    case True
    define b' where "b' = (if c \<noteq> PStr initial_cursor then dict_set b ''cursor'' c else b)"
    obtain r w1 where f: "call b' w = (r, w1)" by (cases "call b' w")
    obtain r' w1' where g: "call b' w' = (r', w1')" by (cases "call b' w'")
    from assms f g have r: "r' = r"
      unfolding stateless_def by (metis fst_conv)
    show ?thesis
      using True f g r Suc.IH [of _ b' w1 w1']
      by (auto simp: Let_def b'_def [symmetric] split: sum.splits)
  qed
qed

lemma dict_set_twice: "dict_set (dict_set d k v) k x = dict_set d k x"
  by (induction d) auto

lemma v2_loop_pages_same_cursor:
  assumes "stateless call" and "c \<noteq> PStr initial_cursor"
    and "dict_set b1 ''cursor'' c = dict_set b2 ''cursor'' c"
  shows "pages (v2_loop n call k c b1 w) = pages (v2_loop n call k c b2 w')"
proof (cases n)
  case 0
  then show ?thesis by simp
next
  case (Suc m)
  show ?thesis
  proof (cases "truthy c")
    case False
    then show ?thesis by (simp add: v2_loop_falsy)
  next
    case True
    define b' where "b' = dict_set b2 ''cursor'' c"
    obtain r w1 where f: "call b' w = (r, w1)" by (cases "call b' w")
    obtain r' w1' where g: "call b' w' = (r', w1')" by (cases "call b' w'")
    from assms(1) f g have r: "r' = r"
      unfolding stateless_def by (metis fst_conv)
    show ?thesis
      using True f g r assms(2,3) v2_loop_pages_stateless [OF assms(1), of m k _ b' w1 w1']
      by (auto simp: Suc Let_def b'_def [symmetric] split: sum.splits)
  qed
qed

lemma v2_loop_resume:
  assumes "stateless call"
    and "\<And>x. dict_set b ''cursor'' x = dict_set b0 ''cursor'' x"
    and "i < length (pages (v2_loop (Suc i + n) call k cur b w))"
    and "snd (pages (v2_loop (Suc i + n) call k cur b w) ! i) = c"
    and "c \<noteq> PStr initial_cursor"
  shows "pages (v2_loop n call k c (dict_set b0 ''cursor'' c) w')
           = drop (Suc i) (pages (v2_loop (Suc i + n) call k cur b w))"
  using assms(2-4)
proof (induction i arbitrary: cur b w)
  case 0
  define b' where "b' = (if cur \<noteq> PStr initial_cursor then dict_set b ''cursor'' cur else b)"
  have inv: "dict_set b' ''cursor'' c = dict_set (dict_set b0 ''cursor'' c) ''cursor'' c"
    using "0.prems"(1) by (simp add: b'_def dict_set_twice)
  from "0.prems"(2) have t: "truthy cur"
    by (rule v2_loop_pages_truthy)
  obtain r w1 where f: "call b' w = (r, w1)" by (cases "call b' w")
  from "0.prems"(2,3) t f obtain recs where
    p: "pages (v2_loop (Suc n) call k cur b w) = (recs, c) # pages (v2_loop n call k c b' w1)"
    by (auto simp: Let_def b'_def [symmetric] split: sum.splits)
  have "pages (v2_loop n call k c (dict_set b0 ''cursor'' c) w')
          = pages (v2_loop n call k c b' w1)"
    using v2_loop_pages_same_cursor [OF assms(1,5) inv [symmetric]] by simp
  with p show ?case by simp
next
  case (Suc j)
  define b' where "b' = (if cur \<noteq> PStr initial_cursor then dict_set b ''cursor'' cur else b)"
  have inv: "\<And>x. dict_set b' ''cursor'' x = dict_set b0 ''cursor'' x"
    using Suc.prems(1) by (simp add: b'_def dict_set_twice)
  from Suc.prems(2) have t: "truthy cur"
    by (rule v2_loop_pages_truthy)
  obtain r w1 where f: "call b' w = (r, w1)" by (cases "call b' w")
  from Suc.prems(2) t f obtain recs c1 where
    p: "pages (v2_loop (Suc (Suc j) + n) call k cur b w)
          = (recs, c1) # pages (v2_loop (Suc j + n) call k c1 b' w1)"
    by (auto simp: Let_def b'_def [symmetric] split: sum.splits)
  from Suc.prems(2,3) p
  have "j < length (pages (v2_loop (Suc j + n) call k c1 b' w1))"
    and "snd (pages (v2_loop (Suc j + n) call k c1 b' w1) ! j) = c"
    by simp_all
  from Suc.IH [OF inv this] p show ?case
    by simp
qed

lemma window_loop_falsy:
  "\<not> truthy cur \<Longrightarrow> window_loop n call k kw bm cur w = stopped Exhausted w"
  by (cases n) simp_all

lemma window_loop_pages_truthy:
  "i < length (pages (window_loop n call k kw bm cur w)) \<Longrightarrow> truthy cur"
  by (rule ccontr) (simp add: window_loop_falsy del: window_loop.simps)

lemma window_loop_pages_same:
  assumes "\<And>c w w'. fst (call1 (kw1 c) w) = fst (call2 (kw2 c) w')"
    and "cur \<noteq> PStr initial_cursor"
    and "\<forall>p \<in> set (pages (window_loop n call1 k kw1 bm1 cur w)). snd p \<noteq> PStr initial_cursor"
  shows "pages (window_loop n call2 k kw2 bm2 cur w')
           = pages (window_loop n call1 k kw1 bm1 cur w)"
  using assms(2,3)
proof (induction n arbitrary: cur w w')
  case 0
  show ?case by simp
next
  case (Suc n)
  show ?case
  proof (cases "truthy cur")
    case False
    then show ?thesis by simp
  next
    case True
    obtain r w1 where f: "call1 (kw1 cur) w = (r, w1)" by (cases "call1 (kw1 cur) w")
    obtain r' w1' where g: "call2 (kw2 cur) w' = (r', w1')" by (cases "call2 (kw2 cur) w'")
    from assms(1) [of cur w w'] f g have r: "r' = r" by simp
    show ?thesis
    proof (cases r)
      case (Inl e)
      with True f g r Suc.prems(1) show ?thesis by (simp add: Let_def)
    next
      case (Inr result)
      show ?thesis
      proof (cases "py_get (body result) k (PList [])")
        case (Inl e)
        with True f g r Inr Suc.prems(1) show ?thesis by (simp add: Let_def)
      next
        case recs: (Inr records)
        show ?thesis
        proof (cases "py_get (body result) ''cursor'' PNone")
          case (Inl e)
          with True f g r Inr recs Suc.prems(1) show ?thesis by (simp add: Let_def)
        next
          case c: (Inr c')
          from True f Inr recs c Suc.prems(1)
          have p: "pages (window_loop (Suc n) call1 k kw1 bm1 cur w)
                     = (records, c') # pages (window_loop n call1 k kw1 bm1 c' w1)"
            by (simp add: Let_def)
          from True g r Inr recs c Suc.prems(1)
          have q: "pages (window_loop (Suc n) call2 k kw2 bm2 cur w')
                     = (records, c') # pages (window_loop n call2 k kw2 bm2 c' w1')"
            by (simp add: Let_def)
          from Suc.prems(2) p have "c' \<noteq> PStr initial_cursor"
            and "\<forall>p \<in> set (pages (window_loop n call1 k kw1 bm1 c' w1)).
                   snd p \<noteq> PStr initial_cursor"
            by simp_all
          from Suc.IH [OF this] p q show ?thesis by simp
        qed
      qed
    qed
  qed
qed

lemma window_loop_step:
  assumes "i < length (pages (window_loop (Suc m) call k kw bm cur w))"
  shows "\<exists>recs c w1. pages (window_loop (Suc m) call k kw bm cur w)
           = (recs, c) # pages (window_loop m call k kw bm c w1)"
proof -
  from assms have t: "truthy cur" by (rule window_loop_pages_truthy)
  define q where "q = kw (if cur = PStr initial_cursor then bm else cur)"
  obtain r w1 where f: "call q w = (r, w1)" by (cases "call q w")
  from assms t f show ?thesis
    by (auto simp: Let_def q_def [symmetric] split: sum.splits)
qed

lemma window_loop_resume:
  assumes "\<And>c w w'. fst (call1 (kw1 c) w) = fst (call2 (kw2 c) w')"
    and "i < length (pages (window_loop (Suc i + n) call1 k kw1 bm1 cur w))"
    and "snd (pages (window_loop (Suc i + n) call1 k kw1 bm1 cur w) ! i) = c"
    and "\<forall>p \<in> set (pages (window_loop (Suc i + n) call1 k kw1 bm1 cur w)).
           snd p \<noteq> PStr initial_cursor"
  shows "pages (window_loop n call2 k kw2 bm2 c w')
           = drop (Suc i) (pages (window_loop (Suc i + n) call1 k kw1 bm1 cur w))"
  using assms(2-4)
proof (induction i arbitrary: cur w)
  case 0
  from window_loop_step [of 0 n call1 k kw1 bm1 cur w] "0.prems"(1)
  obtain recs c1 w1 where
    p: "pages (window_loop (Suc n) call1 k kw1 bm1 cur w)
          = (recs, c1) # pages (window_loop n call1 k kw1 bm1 c1 w1)"
    by auto
  with "0.prems"(2) have c: "c1 = c" by simp
  from "0.prems"(3) p c have "c \<noteq> PStr initial_cursor"
    and "\<forall>p \<in> set (pages (window_loop n call1 k kw1 bm1 c w1)). snd p \<noteq> PStr initial_cursor"
    by simp_all
  from window_loop_pages_same [of call1 kw1 call2 kw2, OF assms(1) this] p c
  show ?case by simp
next
  case (Suc j)
  from window_loop_step [of "Suc j" "Suc j + n" call1 k kw1 bm1 cur w] Suc.prems(1)
  obtain recs c1 w1 where
    p: "pages (window_loop (Suc (Suc j) + n) call1 k kw1 bm1 cur w)
          = (recs, c1) # pages (window_loop (Suc j + n) call1 k kw1 bm1 c1 w1)"
    by auto
  from Suc.prems p
  have "j < length (pages (window_loop (Suc j + n) call1 k kw1 bm1 c1 w1))"
    and "snd (pages (window_loop (Suc j + n) call1 k kw1 bm1 c1 w1) ! j) = c"
    and "\<forall>p \<in> set (pages (window_loop (Suc j + n) call1 k kw1 bm1 c1 w1)).
           snd p \<noteq> PStr initial_cursor"
    by simp_all
  from Suc.IH [OF this] p show ?case by simp
qed

lemma window_loop_first_request:
  assumes "truthy cur"
  shows "requests (window_loop (Suc n) call k kw bm cur w) \<noteq> []
     \<and> hd (requests (window_loop (Suc n) call k kw bm cur w))
         = kw (if cur = PStr initial_cursor then bm else cur)"
  using assms by (auto simp: Let_def split: prod.splits sum.splits)

lemma get_payments_resume:
  assumes "ignores_end_time list_payments"
    and "i < length (pages (get_payments (Suc i + n) mt now list_payments loc st bm w))"
    and "snd (pages (get_payments (Suc i + n) mt now list_payments loc st bm w) ! i) = c"
    and "truthy c"
    and "\<forall>p \<in> set (pages (get_payments (Suc i + n) mt now list_payments loc st bm w)).
           snd p \<noteq> PStr initial_cursor"
  shows "pages (get_payments n mt now list_payments loc st c w')
           = drop (Suc i) (pages (get_payments (Suc i + n) mt now list_payments loc st bm w))"
proof -
  obtain t w1 where n1: "now w = (t, w1)" by (cases "now w")
  obtain t' w1' where n2: "now w' = (t', w1')" by (cases "now w'")
  let ?call = "\<lambda>kw. retried mt (\<lambda>bdy. list_payments kw) PNone"
  let ?kw1 = "window_kwargs loc st (strftime DATETIME_PARSE t) 100"
  let ?kw2 = "window_kwargs loc st (strftime DATETIME_PARSE t') 100"
  let ?cur = "if truthy bm then bm else PStr initial_cursor"
  have same: "\<And>c w w'. fst (?call (?kw1 c) w) = fst (?call (?kw2 c) w')"
    using assms(1) unfolding ignores_end_time_def by (intro retried_fst) blast
  have run: "get_payments (Suc i + n) mt now list_payments loc st bm w
               = window_loop (Suc i + n) ?call ''payments'' ?kw1 bm ?cur w1"
    by (simp add: get_payments_def n1 Let_def del: window_loop.simps)
  have res: "get_payments n mt now list_payments loc st c w'
               = window_loop n ?call ''payments'' ?kw2 c c w1'"
    using assms(4) by (simp add: get_payments_def n2 Let_def del: window_loop.simps)
  from window_loop_resume [of ?call ?kw1 ?call ?kw2 i n "''payments''" bm ?cur w1 c c w1',
      OF same] assms(2,3,5)
  show ?thesis
    unfolding run res by blast
qed

lemma get_payments_first_request:
  assumes "truthy c"
  shows "requests (get_payments (Suc n) mt now list_payments loc st c w) \<noteq> []
     \<and> map_of (hd (requests (get_payments (Suc n) mt now list_payments loc st c w)))
         ''cursor'' = Some c"
proof -
  obtain t w1 where n1: "now w = (t, w1)" by (cases "now w")
  let ?call = "\<lambda>kw. retried mt (\<lambda>bdy. list_payments kw) PNone"
  let ?kw = "window_kwargs loc st (strftime DATETIME_PARSE t) 100"
  have run: "get_payments (Suc n) mt now list_payments loc st c w
               = window_loop (Suc n) ?call ''payments'' ?kw c c w1"
    using assms by (simp add: get_payments_def n1 Let_def del: window_loop.simps)
  from window_loop_first_request [OF assms, of n ?call "''payments''" ?kw c w1]
  show ?thesis
    unfolding run by (simp add: window_kwargs_def del: window_loop.simps)
qed

lemma get_v2_objects_resume:
  assumes "stateless request_method"
    and "i < length (pages (get_v2_objects (Suc i + n) mt request_method b0 k w))"
    and "snd (pages (get_v2_objects (Suc i + n) mt request_method b0 k w) ! i) = c"
    and "c \<noteq> PStr initial_cursor"
  shows "pages (get_v2_objects n mt request_method (dict_set b0 ''cursor'' c) k w')
           = drop (Suc i) (pages (get_v2_objects (Suc i + n) mt request_method b0 k w))"
proof -
  have "dict_get_default (dict_set b0 ''cursor'' c) ''cursor'' (PStr initial_cursor) = c"
    by (simp add: dict_get_default_def map_of_dict_set)
  with v2_loop_resume [OF stateless_retried [OF assms(1)],
      where b = b0 and ?b0.0 = b0 and i = i and n = n and k = k and w = w and c = c
        and w' = w' and ?n1 = mt
        and cur = "dict_get_default b0 ''cursor'' (PStr initial_cursor)"]
    assms(2-4)
  show ?thesis
    by (simp add: get_v2_objects_def del: v2_loop.simps)
qed


lemma two_page_server_stateless: "stateless (two_page_server k)"
  by (simp add: stateless_def two_page_server_def)

lemma two_page_server_ignores_end_time: "ignores_end_time (two_page_server k)"
  by (simp add: ignores_end_time_def two_page_server_def window_kwargs_def dict_get_def)

lemma two_page_payments_run:
  "pages (get_payments 5 0 tick (two_page_server ''payments'') loc st PNone w)
     = [(PList [PStr ''r1'', PStr ''r2''], PStr ''c1''), (PList [PStr ''r3''], PNone)]"
  by (simp add: get_payments_def tick_def eval_nat_numeral retried_def
      retryable_v2_method_def v2_method_def two_page_server_def page_def window_kwargs_def
      dict_get_def dict_get_default_def initial_cursor_def Let_def)

lemma two_page_payments_resumed:
  "pages (get_payments 4 0 tick (two_page_server ''payments'') loc st (PStr ''c1'') w)
     = [(PList [PStr ''r3''], PNone)]"
  by (simp add: get_payments_def tick_def eval_nat_numeral retried_def
      retryable_v2_method_def v2_method_def two_page_server_def page_def window_kwargs_def
      dict_get_def dict_get_default_def initial_cursor_def Let_def)

lemma two_page_v2_run:
  "pages (get_v2_objects 5 0 (two_page_server ''objects'') body0 ''objects'' w)
     = [(PList [PStr ''r1'', PStr ''r2''], PStr ''c1''), (PList [PStr ''r3''], PNone)]"
  by (simp add: get_v2_objects_def eval_nat_numeral retried_def
      retryable_v2_method_def v2_method_def two_page_server_def page_def body0_def
      dict_get_def dict_get_default_def initial_cursor_def Let_def)

text \<open>
  C4, as the claim states it, fails for the last batch of a run. The second of two pages
  is yielded with the cursor none, and nothing remains after it; a run resumed with that
  cursor is a run without a bookmark, and yields both pages again.
\<close>

theorem get_payments_resumed_after_last_batch:
  "pages (get_payments 5 0 tick (two_page_server ''payments'') (PStr ''L1'')
            (PStr ''2023-01-01T00:00:00Z'') PNone 0)
     = [(PList [PStr ''r1'', PStr ''r2''], PStr ''c1''), (PList [PStr ''r3''], PNone)]
   \<and> drop 2 (pages (get_payments 5 0 tick (two_page_server ''payments'') (PStr ''L1'')
                      (PStr ''2023-01-01T00:00:00Z'') PNone 0)) = []
   \<and> pages (get_payments 5 0 tick (two_page_server ''payments'') (PStr ''L1'')
              (PStr ''2023-01-01T00:00:00Z'')
              (snd (pages (get_payments 5 0 tick (two_page_server ''payments'') (PStr ''L1'')
                             (PStr ''2023-01-01T00:00:00Z'') PNone 0) ! 1))
              60000000)
     = [(PList [PStr ''r1'', PStr ''r2''], PStr ''c1''), (PList [PStr ''r3''], PNone)]"
  by (simp add: two_page_payments_run)

text \<open>
  C4, amended. Let the server answer by the request alone. When page \<open>i\<close> of a run of
  \<^verbatim>\<open>_get_v2_objects\<close> was yielded with a cursor other than \<^verbatim>\<open>__initial__\<close>, a run on
  the same body with that cursor set yields exactly the pages that followed page \<open>i\<close>,
  as far as the consumer reads. The same holds for \<^verbatim>\<open>get_payments\<close> resumed with the
  cursor as bookmark, when that cursor is not empty, no page of the run has the cursor
  \<^verbatim>\<open>__initial__\<close>, and the answers do not depend on the end of the time window. A run
  of \<^verbatim>\<open>get_payments\<close> with a non-empty bookmark sends it as the cursor of its first
  request; so it does with \<^verbatim>\<open>xyz\<close>. (The cursor none of a last batch is no bookmark:
  see the theorem above.)
\<close>

theorem resume_from_yielded_cursor:
  "(stateless request_method
      \<and> i < length (pages (get_v2_objects (Suc i + n) max_time request_method bdy
                             body_key w))
      \<and> snd (pages (get_v2_objects (Suc i + n) max_time request_method bdy body_key w) ! i)
          = c
      \<and> c \<noteq> PStr initial_cursor
     \<longrightarrow> pages (get_v2_objects n max_time request_method (dict_set bdy ''cursor'' c)
                  body_key w')
           = drop (Suc i)
               (pages (get_v2_objects (Suc i + n) max_time request_method bdy body_key w)))
   \<and> (ignores_end_time list_payments
      \<and> j < length (pages (get_payments (Suc j + m) max_time now list_payments location_id
                             start_time bookmarked_cursor v))
      \<and> snd (pages (get_payments (Suc j + m) max_time now list_payments location_id
                       start_time bookmarked_cursor v) ! j) = c'
      \<and> truthy c'
      \<and> (\<forall>p \<in> set (pages (get_payments (Suc j + m) max_time now list_payments location_id
                              start_time bookmarked_cursor v)).
            snd p \<noteq> PStr initial_cursor)
     \<longrightarrow> pages (get_payments m max_time now list_payments location_id start_time c' v')
           = drop (Suc j)
               (pages (get_payments (Suc j + m) max_time now list_payments location_id
                         start_time bookmarked_cursor v)))
   \<and> (truthy c'
     \<longrightarrow> requests (get_payments (Suc m) max_time now list_payments location_id start_time
                     c' v) \<noteq> []
         \<and> map_of (hd (requests (get_payments (Suc m) max_time now list_payments location_id
                                   start_time c' v))) ''cursor'' = Some c')
   \<and> requests (get_payments (Suc m) max_time now list_payments location_id start_time
                 (PStr ''xyz'') v) \<noteq> []
   \<and> map_of (hd (requests (get_payments (Suc m) max_time now list_payments location_id
                             start_time (PStr ''xyz'') v))) ''cursor'' = Some (PStr ''xyz'')"
proof (intro conjI impI)
  assume "stateless request_method
      \<and> i < length (pages (get_v2_objects (Suc i + n) max_time request_method bdy
                             body_key w))
      \<and> snd (pages (get_v2_objects (Suc i + n) max_time request_method bdy body_key w) ! i)
          = c
      \<and> c \<noteq> PStr initial_cursor"
  then show "pages (get_v2_objects n max_time request_method (dict_set bdy ''cursor'' c)
                  body_key w')
           = drop (Suc i)
               (pages (get_v2_objects (Suc i + n) max_time request_method bdy body_key w))"
    using get_v2_objects_resume [of request_method i n max_time bdy body_key w c w']
    by blast
next
  assume "ignores_end_time list_payments
      \<and> j < length (pages (get_payments (Suc j + m) max_time now list_payments location_id
                             start_time bookmarked_cursor v))
      \<and> snd (pages (get_payments (Suc j + m) max_time now list_payments location_id
                       start_time bookmarked_cursor v) ! j) = c'
      \<and> truthy c'
      \<and> (\<forall>p \<in> set (pages (get_payments (Suc j + m) max_time now list_payments location_id
                              start_time bookmarked_cursor v)).
            snd p \<noteq> PStr initial_cursor)"
  then show "pages (get_payments m max_time now list_payments location_id start_time c' v')
           = drop (Suc j)
               (pages (get_payments (Suc j + m) max_time now list_payments location_id
                         start_time bookmarked_cursor v))"
    using get_payments_resume [of list_payments j m max_time now location_id start_time
        bookmarked_cursor v c' v']
    by blast
next
  have xyz: "truthy (PStr ''xyz'')"
    by simp
  note first = get_payments_first_request [of _ m max_time now list_payments location_id
      start_time v]
  from first [OF xyz]
  show "requests (get_payments (Suc m) max_time now list_payments location_id start_time
                 (PStr ''xyz'') v) \<noteq> []"
    and "map_of (hd (requests (get_payments (Suc m) max_time now list_payments location_id
                             start_time (PStr ''xyz'') v))) ''cursor'' = Some (PStr ''xyz'')"
    by blast+
  assume t: "truthy c'"
  from first [OF t]
  show "requests (get_payments (Suc m) max_time now list_payments location_id start_time
                     c' v) \<noteq> []"
    and "map_of (hd (requests (get_payments (Suc m) max_time now list_payments location_id
                                   start_time c' v))) ''cursor'' = Some c'"
    by blast+
qed

theorem resume_from_yielded_cursor_witness:
  "pages (get_v2_objects 4 0 (two_page_server ''objects'')
            (dict_set body0 ''cursor'' (PStr ''c1'')) ''objects'' 60000000)
     = [(PList [PStr ''r3''], PNone)]
   \<and> pages (get_payments 4 0 tick (two_page_server ''payments'') (PStr ''L1'')
              (PStr ''2023-01-01T00:00:00Z'') (PStr ''c1'') 60000000)
     = [(PList [PStr ''r3''], PNone)]
   \<and> requests (get_payments (Suc 4) 0 tick (two_page_server ''payments'') (PStr ''L1'')
                 (PStr ''2023-01-01T00:00:00Z'') (PStr ''c1'') 0) \<noteq> []
   \<and> map_of (hd (requests (get_payments (Suc 4) 0 tick (two_page_server ''payments'')
                             (PStr ''L1'') (PStr ''2023-01-01T00:00:00Z'') (PStr ''c1'') 0)))
        ''cursor'' = Some (PStr ''c1'')
   \<and> map_of (hd (requests (get_payments (Suc 4) 0 tick (two_page_server ''payments'')
                             (PStr ''L1'') (PStr ''2023-01-01T00:00:00Z'') (PStr ''xyz'') 0)))
        ''cursor'' = Some (PStr ''xyz'')"
proof -
  let ?v2 = "get_v2_objects (Suc 0 + 4) 0 (two_page_server ''objects'') body0 ''objects'' 0"
  let ?pay = "get_payments (Suc 0 + 4) 0 tick (two_page_server ''payments'') (PStr ''L1'')
                (PStr ''2023-01-01T00:00:00Z'') PNone 0"
  note inst = resume_from_yielded_cursor
    [where request_method = "two_page_server ''objects''" and i = 0 and n = 4
       and max_time = 0 and bdy = body0 and body_key = "''objects''" and w = 0
       and c = "PStr ''c1''" and w' = 60000000
       and list_payments = "two_page_server ''payments''" and j = 0 and m = 4
       and now = tick and location_id = "PStr ''L1''"
       and start_time = "PStr ''2023-01-01T00:00:00Z''" and bookmarked_cursor = PNone
       and v = 0 and c' = "PStr ''c1''" and v' = 60000000]
  have "stateless (two_page_server ''objects'')"
    and "0 < length (pages ?v2)" and "snd (pages ?v2 ! 0) = PStr ''c1''"
    and "PStr ''c1'' \<noteq> PStr initial_cursor"
    by (simp_all add: two_page_server_stateless two_page_v2_run initial_cursor_def)
  with inst have "pages (get_v2_objects 4 0 (two_page_server ''objects'')
            (dict_set body0 ''cursor'' (PStr ''c1'')) ''objects'' 60000000)
     = drop (Suc 0) (pages ?v2)"
    by blast
  then have 1: "pages (get_v2_objects 4 0 (two_page_server ''objects'')
            (dict_set body0 ''cursor'' (PStr ''c1'')) ''objects'' 60000000)
     = [(PList [PStr ''r3''], PNone)]"
    by (simp add: two_page_v2_run)
  have "ignores_end_time (two_page_server ''payments'')"
    and "0 < length (pages ?pay)" and "snd (pages ?pay ! 0) = PStr ''c1''"
    and "truthy (PStr ''c1'')"
    and "\<forall>p \<in> set (pages ?pay). snd p \<noteq> PStr initial_cursor"
    by (simp_all add: two_page_server_ignores_end_time two_page_payments_run initial_cursor_def)
  with inst have "pages (get_payments 4 0 tick (two_page_server ''payments'') (PStr ''L1'')
              (PStr ''2023-01-01T00:00:00Z'') (PStr ''c1'') 60000000)
     = drop (Suc 0) (pages ?pay)"
    by blast
  then have 2: "pages (get_payments 4 0 tick (two_page_server ''payments'') (PStr ''L1'')
              (PStr ''2023-01-01T00:00:00Z'') (PStr ''c1'') 60000000)
     = [(PList [PStr ''r3''], PNone)]"
    by (simp add: two_page_payments_run)
  have "truthy (PStr ''c1'')"
    by simp
  with inst have 3: "requests (get_payments (Suc 4) 0 tick (two_page_server ''payments'')
        (PStr ''L1'') (PStr ''2023-01-01T00:00:00Z'') (PStr ''c1'') 0) \<noteq> []"
    and 4: "map_of (hd (requests (get_payments (Suc 4) 0 tick (two_page_server ''payments'')
        (PStr ''L1'') (PStr ''2023-01-01T00:00:00Z'') (PStr ''c1'') 0))) ''cursor''
          = Some (PStr ''c1'')"
    by blast+
  from inst have 5: "map_of (hd (requests (get_payments (Suc 4) 0 tick
        (two_page_server ''payments'') (PStr ''L1'') (PStr ''2023-01-01T00:00:00Z'')
        (PStr ''xyz'') 0))) ''cursor'' = Some (PStr ''xyz'')"
    by blast
  from 1 2 3 4 5 show ?thesis
    by blast
qed

section \<open>The begin time of catalog and refund requests\<close>

lemma digits_2:
  "digits 2 n = [''0123456789'' ! nat (n div 10 mod 10), ''0123456789'' ! nat (n mod 10)]"
  by (simp add: numeral_2_eq_2)

lemma digits_4: "digits 4 n = digits 2 (n div 100) @ digits 2 n"
proof -
  have "digits (Suc (Suc (Suc (Suc 0)))) n
          = digits (Suc (Suc 0)) (n div 100) @ digits (Suc (Suc 0)) n"
    by (simp add: zdiv_zmult2_eq [symmetric])
  then show ?thesis
    by (simp add: numeral_2_eq_2 numeral_eq_Suc)
qed

lemma digits_6: "digits 6 n = digits 4 (n div 100) @ digits 2 n"
proof -
  have "digits (Suc (Suc (Suc (Suc (Suc (Suc 0)))))) n
          = digits (Suc (Suc (Suc (Suc 0)))) (n div 100) @ digits (Suc (Suc 0)) n"
    by (simp add: zdiv_zmult2_eq [symmetric])
  then show ?thesis
    by (simp add: numeral_2_eq_2 numeral_eq_Suc)
qed

lemma datetime_2023_01_01: "datetime 2023 1 1 0 0 0 0 = 63808128000000000"
  by (simp add: datetime_def ymd2ord_def days_before_year_def days_before_month_def
      DAYS_BEFORE_MONTH_def usec_per_day_def)

lemma parse_utc_2023_01_01:
  "parse_utc ''2023-01-01T00:00:00Z'' = Inr (datetime 2023 1 1 0 0 0 0)"
  by (simp add: parse_utc_def digit_value_def days_in_month_def DAYS_IN_MONTH_def is_leap_def)

lemma ord2ymd_2022_12_31: "ord2ymd 738520 = (2022, 12, 31)"
  by (simp add: ord2ymd_def Let_def DAYS_BEFORE_MONTH_def DAYS_IN_MONTH_def)

lemma strftime_2022_12_31:
  "strftime DATETIME_FMT (datetime 2023 1 1 0 0 0 0 - 1000) = ''2022-12-31T23:59:59.999000Z''"
  by (simp add: datetime_2023_01_01 strftime_def usec_per_day_def ord2ymd_2022_12_31
      digits_2 digits_4 digits_6)

lemma get_v2_objects_frame:
  "key \<noteq> ''cursor'' \<Longrightarrow>
     q \<in> set (requests (get_v2_objects n max_time request_method bdy body_key w)) \<Longrightarrow>
     map_of q key = map_of bdy key"
  unfolding get_v2_objects_def by (rule v2_loop_frame)

lemma get_v2_objects_first:
  assumes "map_of bdy ''cursor'' = None"
  shows "requests (get_v2_objects (Suc n) max_time request_method bdy body_key w) \<noteq> []
     \<and> hd (requests (get_v2_objects (Suc n) max_time request_method bdy body_key w)) = bdy"
proof -
  from assms have s: "dict_get_default bdy ''cursor'' (PStr initial_cursor) = PStr initial_cursor"
    by (simp add: dict_get_default_def)
  have "truthy (PStr initial_cursor)"
    by (simp add: initial_cursor_def)
  from v2_loop_first [OF this, of n "retried max_time request_method" body_key bdy w]
  show ?thesis
    unfolding get_v2_objects_def s by simp
qed

lemma get_catalog_begin_time:
  assumes "q \<in> set (requests (get_catalog n max_time strptime_to_utc search_catalog_objects
                               object_type start_time w))"
  shows "\<exists>t. strptime_to_utc start_time = Inr t
           \<and> map_of q ''begin_time'' = Some (PStr (strftime DATETIME_FMT (t - 1000)))"
proof (cases "strptime_to_utc start_time")
  case (Inl e)
  with assms show ?thesis
    by (simp add: get_catalog_def)
next
  case (Inr t)
  show ?thesis
  proof (cases "0 \<le> t - 1000")
    case False
    with assms Inr show ?thesis
      by (simp add: get_catalog_def datetime_sub_def timedelta_milliseconds_def)
  next
    case True
    have run: "get_catalog n max_time strptime_to_utc search_catalog_objects object_type
                 start_time w
                 = get_v2_objects n max_time search_catalog_objects
                     [(''object_types'', PList [object_type]),
                      (''include_deleted_objects'', PBool True),
                      (''begin_time'', PStr (strftime DATETIME_FMT (t - 1000)))] ''objects'' w"
      using Inr True
      by (simp add: get_catalog_def datetime_sub_def timedelta_milliseconds_def Let_def)
    from assms have "map_of q ''begin_time''
        = map_of [(''object_types'', PList [object_type]),
                  (''include_deleted_objects'', PBool True),
                  (''begin_time'', PStr (strftime DATETIME_FMT (t - 1000)))] ''begin_time''"
      unfolding run by (intro get_v2_objects_frame) simp_all
    with Inr show ?thesis
      by simp
  qed
qed

lemma get_refunds_begin_time:
  assumes "q \<in> set (requests (get_refunds n max_time strptime_to_utc list_payment_refunds
                               start_time bookmarked_cursor w))"
  shows "\<exists>t. strptime_to_utc start_time = Inr t
           \<and> map_of q ''begin_time'' = Some (PStr (strftime DATETIME_FMT (t - 1000)))"
proof (cases "strptime_to_utc start_time")
  case (Inl e)
  with assms show ?thesis
    by (simp add: get_refunds_def)
next
  case (Inr t)
  show ?thesis
  proof (cases "0 \<le> t - 1000")
    case False
    with assms Inr show ?thesis
      by (simp add: get_refunds_def datetime_sub_def timedelta_milliseconds_def)
  next
    case True
    define bdy0 where "bdy0 = [(''begin_time'', PStr (strftime DATETIME_FMT (t - 1000)))]"
    define bdy where "bdy = (if truthy bookmarked_cursor
                             then dict_set bdy0 ''cursor'' bookmarked_cursor else bdy0)"
    have run: "get_refunds n max_time strptime_to_utc list_payment_refunds start_time
                 bookmarked_cursor w
                 = get_v2_objects n max_time list_payment_refunds bdy ''refunds'' w"
      using Inr True
      by (simp add: get_refunds_def datetime_sub_def timedelta_milliseconds_def Let_def
          bdy_def bdy0_def)
    from assms have "map_of q ''begin_time'' = map_of bdy ''begin_time''"
      unfolding run by (intro get_v2_objects_frame) simp_all
    also have "\<dots> = Some (PStr (strftime DATETIME_FMT (t - 1000)))"
      by (simp add: bdy_def bdy0_def map_of_dict_set)
    finally show ?thesis
      using Inr by simp
  qed
qed

text \<open>
  C7. Every request that \<^verbatim>\<open>get_catalog\<close> or \<^verbatim>\<open>get_refunds\<close> issues, on the first page
  and on every later one, carries as \<^verbatim>\<open>begin_time\<close> the start timestamp moved back by
  1000 microseconds and formatted with microseconds (so a start time that does not parse,
  or lies within a millisecond of the first representable instant, leads to no request).
  When the parser reads \<^verbatim>\<open>2023-01-01T00:00:00Z\<close> as that instant, the first catalog
  request has the begin time \<^verbatim>\<open>2022-12-31T23:59:59.999000Z\<close>.
\<close>

theorem begin_time_one_millisecond_back:
  "(\<forall>q \<in> set (requests (get_catalog n max_time strptime_to_utc search_catalog_objects
                            object_type start_time w)).
      \<exists>t. strptime_to_utc start_time = Inr t
         \<and> map_of q ''begin_time'' = Some (PStr (strftime DATETIME_FMT (t - 1000))))
   \<and> (\<forall>q \<in> set (requests (get_refunds n max_time strptime_to_utc list_payment_refunds
                              start_time bookmarked_cursor w)).
        \<exists>t. strptime_to_utc start_time = Inr t
           \<and> map_of q ''begin_time'' = Some (PStr (strftime DATETIME_FMT (t - 1000))))
   \<and> (strptime_to_utc ''2023-01-01T00:00:00Z'' = Inr (datetime 2023 1 1 0 0 0 0)
     \<longrightarrow> requests (get_catalog (Suc n) max_time strptime_to_utc search_catalog_objects
                     object_type ''2023-01-01T00:00:00Z'' w) \<noteq> []
         \<and> map_of (hd (requests (get_catalog (Suc n) max_time strptime_to_utc
                                   search_catalog_objects object_type
                                   ''2023-01-01T00:00:00Z'' w))) ''begin_time''
             = Some (PStr ''2022-12-31T23:59:59.999000Z''))"
proof (intro conjI ballI impI)
  fix q
  assume "q \<in> set (requests (get_catalog n max_time strptime_to_utc search_catalog_objects
                              object_type start_time w))"
  then show "\<exists>t. strptime_to_utc start_time = Inr t
         \<and> map_of q ''begin_time'' = Some (PStr (strftime DATETIME_FMT (t - 1000)))"
    by (rule get_catalog_begin_time)
next
  fix q
  assume "q \<in> set (requests (get_refunds n max_time strptime_to_utc list_payment_refunds
                              start_time bookmarked_cursor w))"
  then show "\<exists>t. strptime_to_utc start_time = Inr t
         \<and> map_of q ''begin_time'' = Some (PStr (strftime DATETIME_FMT (t - 1000)))"
    by (rule get_refunds_begin_time)
next
  assume p: "strptime_to_utc ''2023-01-01T00:00:00Z'' = Inr (datetime 2023 1 1 0 0 0 0)"
  have r: "0 \<le> datetime 2023 1 1 0 0 0 0 - 1000"
    by (simp add: datetime_2023_01_01)
  have run: "get_catalog (Suc n) max_time strptime_to_utc search_catalog_objects object_type
               ''2023-01-01T00:00:00Z'' w
               = get_v2_objects (Suc n) max_time search_catalog_objects
                   [(''object_types'', PList [object_type]),
                    (''include_deleted_objects'', PBool True),
                    (''begin_time'',
                     PStr (strftime DATETIME_FMT (datetime 2023 1 1 0 0 0 0 - 1000)))]
                   ''objects'' w"
    using p r
    by (simp add: get_catalog_def datetime_sub_def timedelta_milliseconds_def Let_def)
  note first = get_v2_objects_first
    [of "[(''object_types'', PList [object_type]),
          (''include_deleted_objects'', PBool True),
          (''begin_time'', PStr (strftime DATETIME_FMT (datetime 2023 1 1 0 0 0 0 - 1000)))]"
      n max_time search_catalog_objects "''objects''" w, folded run]
  from first
  show "requests (get_catalog (Suc n) max_time strptime_to_utc search_catalog_objects
                     object_type ''2023-01-01T00:00:00Z'' w) \<noteq> []"
    by simp
  from first
  show "map_of (hd (requests (get_catalog (Suc n) max_time strptime_to_utc
                                   search_catalog_objects object_type
                                   ''2023-01-01T00:00:00Z'' w))) ''begin_time''
             = Some (PStr ''2022-12-31T23:59:59.999000Z'')"
    by (simp add: strftime_2022_12_31)
qed

lemma catalog_run_requests:
  "requests (get_catalog 5 0 parse_utc scripted (PStr ''ITEM'') ''2023-01-01T00:00:00Z''
               (three_pages ''objects''))
     = [[(''object_types'', PList [PStr ''ITEM'']), (''include_deleted_objects'', PBool True),
         (''begin_time'', PStr ''2022-12-31T23:59:59.999000Z'')],
        [(''object_types'', PList [PStr ''ITEM'']), (''include_deleted_objects'', PBool True),
         (''begin_time'', PStr ''2022-12-31T23:59:59.999000Z''), (''cursor'', PStr ''c1'')],
        [(''object_types'', PList [PStr ''ITEM'']), (''include_deleted_objects'', PBool True),
         (''begin_time'', PStr ''2022-12-31T23:59:59.999000Z''), (''cursor'', PStr ''c2'')]]"
proof -
  have r: "0 \<le> datetime 2023 1 1 0 0 0 0 - 1000"
    by (simp add: datetime_2023_01_01)
  have "get_catalog 5 0 parse_utc scripted (PStr ''ITEM'') ''2023-01-01T00:00:00Z''
          (three_pages ''objects'')
          = get_v2_objects 5 0 scripted
              [(''object_types'', PList [PStr ''ITEM'']),
               (''include_deleted_objects'', PBool True),
               (''begin_time'', PStr ''2022-12-31T23:59:59.999000Z'')]
              ''objects'' (three_pages ''objects'')"
    using r
    by (simp add: get_catalog_def parse_utc_2023_01_01 datetime_sub_def
        timedelta_milliseconds_def Let_def strftime_2022_12_31)
  then show ?thesis
    by (simp add: get_v2_objects_def eval_nat_numeral retried_def retryable_v2_method_def
        v2_method_def page_def three_pages_def dict_get_default_def
        initial_cursor_def Let_def)
qed

lemma refunds_run_requests:
  "requests (get_refunds 5 0 parse_utc scripted ''2023-01-01T00:00:00Z'' (PStr ''c1'')
               [page ''refunds'' [PStr ''r3''] None])
     = [[(''begin_time'', PStr ''2022-12-31T23:59:59.999000Z''), (''cursor'', PStr ''c1'')]]"
proof -
  have r: "0 \<le> datetime 2023 1 1 0 0 0 0 - 1000"
    by (simp add: datetime_2023_01_01)
  have "get_refunds 5 0 parse_utc scripted ''2023-01-01T00:00:00Z'' (PStr ''c1'')
          [page ''refunds'' [PStr ''r3''] None]
          = get_v2_objects 5 0 scripted
              [(''begin_time'', PStr ''2022-12-31T23:59:59.999000Z''),
               (''cursor'', PStr ''c1'')]
              ''refunds'' [page ''refunds'' [PStr ''r3''] None]"
    using r
    by (simp add: get_refunds_def parse_utc_2023_01_01 datetime_sub_def
        timedelta_milliseconds_def Let_def strftime_2022_12_31)
  then show ?thesis
    by (simp add: get_v2_objects_def eval_nat_numeral retried_def retryable_v2_method_def
        v2_method_def page_def dict_get_default_def initial_cursor_def Let_def)
qed

theorem begin_time_one_millisecond_back_witness:
  "map_of (requests (get_catalog 5 0 parse_utc scripted (PStr ''ITEM'')
                       ''2023-01-01T00:00:00Z'' (three_pages ''objects'')) ! 2)
     ''begin_time'' = Some (PStr ''2022-12-31T23:59:59.999000Z'')
   \<and> map_of (requests (get_refunds 5 0 parse_utc scripted ''2023-01-01T00:00:00Z''
                         (PStr ''c1'') [page ''refunds'' [PStr ''r3''] None]) ! 0)
       ''begin_time'' = Some (PStr ''2022-12-31T23:59:59.999000Z'')
   \<and> requests (get_catalog 5 0 parse_utc scripted (PStr ''ITEM'')
                 ''2023-01-01T00:00:00Z'' (three_pages ''objects'')) \<noteq> []
   \<and> map_of (hd (requests (get_catalog 5 0 parse_utc scripted (PStr ''ITEM'')
                             ''2023-01-01T00:00:00Z'' (three_pages ''objects''))))
       ''begin_time'' = Some (PStr ''2022-12-31T23:59:59.999000Z'')"
proof -
  let ?C = "get_catalog 5 0 parse_utc scripted (PStr ''ITEM'') ''2023-01-01T00:00:00Z''
              (three_pages ''objects'')"
  let ?F = "get_refunds 5 0 parse_utc scripted ''2023-01-01T00:00:00Z'' (PStr ''c1'')
              [page ''refunds'' [PStr ''r3''] None]"
  have five: "Suc 4 = 5"
    by simp
  note catalog = begin_time_one_millisecond_back
    [where n = 5 and max_time = 0 and strptime_to_utc = parse_utc
       and search_catalog_objects = scripted and object_type = "PStr ''ITEM''"
       and start_time = "''2023-01-01T00:00:00Z''" and w = "three_pages ''objects''"]
  note refunds = begin_time_one_millisecond_back
    [where n = 5 and max_time = 0 and strptime_to_utc = parse_utc
       and list_payment_refunds = scripted and bookmarked_cursor = "PStr ''c1''"
       and start_time = "''2023-01-01T00:00:00Z''" and w = "[page ''refunds'' [PStr ''r3''] None]"]
  note first = begin_time_one_millisecond_back
    [where n = 4 and max_time = 0 and strptime_to_utc = parse_utc
       and search_catalog_objects = scripted and object_type = "PStr ''ITEM''"
       and w = "three_pages ''objects''", unfolded five]
  have "requests ?C ! 2 \<in> set (requests ?C)"
    by (simp add: catalog_run_requests)
  with catalog have "\<exists>t. parse_utc ''2023-01-01T00:00:00Z'' = Inr t
      \<and> map_of (requests ?C ! 2) ''begin_time''
          = Some (PStr (strftime DATETIME_FMT (t - 1000)))"
    by blast
  then have 1: "map_of (requests ?C ! 2) ''begin_time''
                  = Some (PStr ''2022-12-31T23:59:59.999000Z'')"
    by (auto simp: parse_utc_2023_01_01 strftime_2022_12_31)
  have "requests ?F ! 0 \<in> set (requests ?F)"
    by (simp add: refunds_run_requests)
  with refunds have "\<exists>t. parse_utc ''2023-01-01T00:00:00Z'' = Inr t
      \<and> map_of (requests ?F ! 0) ''begin_time''
          = Some (PStr (strftime DATETIME_FMT (t - 1000)))"
    by blast
  then have 2: "map_of (requests ?F ! 0) ''begin_time''
                  = Some (PStr ''2022-12-31T23:59:59.999000Z'')"
    by (auto simp: parse_utc_2023_01_01 strftime_2022_12_31)
  from first parse_utc_2023_01_01 have 3: "requests ?C \<noteq> []"
    and 4: "map_of (hd (requests ?C)) ''begin_time''
              = Some (PStr ''2022-12-31T23:59:59.999000Z'')"
    by blast+
  from 1 2 3 4 show ?thesis
    by blast
qed

section \<open>The end time of a run\<close>

lemma window_loop_requests:
  "q \<in> set (requests (window_loop n call k kw bm cur w)) \<Longrightarrow> \<exists>c. q = kw c"
proof (induction n arbitrary: cur w)
  case 0
  then show ?case by simp
next
  case (Suc n)
  show ?case
  proof (cases "truthy cur")
    case False
    with Suc.prems show ?thesis by simp
  next
    case True
    define c1 where "c1 = (if cur = PStr initial_cursor then bm else cur)"
    obtain r w1 where f: "call (kw c1) w = (r, w1)" by (cases "call (kw c1) w")
    from Suc.prems True f Suc.IH show ?thesis
      by (auto simp: Let_def c1_def [symmetric] split: sum.splits)
  qed
qed

lemma on_exception_world:
  assumes "\<And>w. snd (f w) = w"
  shows "snd (snd (on_exception C G f n w)) = w"
proof (induction n arbitrary: w)
  case 0
  from assms [of w] show ?case
    by (cases "f w") simp
next
  case (Suc n)
  from assms [of w] Suc.IH [of w] show ?case
    by (cases "f w") (auto split: sum.splits prod.splits)
qed

lemma snd_v2_method: "snd (v2_method rm b w) = snd (rm b w)"
  by (cases "rm b w") (auto simp: v2_method_def split: sum.splits)

lemma snd_retried: "snd (retried n rm b w) = snd (snd (retryable_v2_method n rm b w))"
  by (cases "retryable_v2_method n rm b w") (simp add: retried_def)

lemma retried_world:
  assumes "\<And>w. snd (rm b w) = w"
  shows "snd (retried n rm b w) = w"
proof -
  have "\<And>w. snd (v2_method rm b w) = w"
    using assms by (simp add: snd_v2_method)
  from on_exception_world [of "v2_method rm b", OF this] show ?thesis
    by (simp add: snd_retried retryable_v2_method_def)
qed

lemma window_loop_world:
  assumes "\<And>q w. snd (call q w) = w"
  shows "world (window_loop n call k kw bm cur w) = w"
proof (induction n arbitrary: cur w)
  case 0
  show ?case by simp
next
  case (Suc n)
  show ?case
  proof (cases "truthy cur")
    case False
    then show ?thesis by simp
  next
    case True
    define c1 where "c1 = (if cur = PStr initial_cursor then bm else cur)"
    obtain r w1 where f: "call (kw c1) w = (r, w1)" by (cases "call (kw c1) w")
    with assms [of "kw c1" w] have "w1 = w" by simp
    with True f Suc.IH show ?thesis
      by (auto simp: Let_def c1_def [symmetric] split: sum.splits)
  qed
qed

lemma window_kwargs_end_time:
  "map_of (window_kwargs location_id start_time end_time limit cursor) ''end_time''
     = Some (PStr end_time)"
  by (simp add: window_kwargs_def)

lemma window_run_end_time:
  assumes "q \<in> set (requests (window_loop n call k
                               (window_kwargs location_id start_time end_time limit) bm cur w))"
  shows "map_of q ''end_time'' = Some (PStr end_time)"
  using window_loop_requests [OF assms] by (auto simp: window_kwargs_end_time)

text \<open>
  C8. In a run of \<^verbatim>\<open>get_payments\<close>, \<^verbatim>\<open>get_cash_drawer_shifts\<close> or \<^verbatim>\<open>get_payouts\<close>
  every request carries as \<^verbatim>\<open>end_time\<close> the reading the clock gave when the run began,
  however the clock and the server move the world on during the run. The clock is read
  that once: with a server that leaves the world as it is, the world after the run is the
  one after that reading.
\<close>

theorem end_time_fixed_for_the_run:
  "(\<forall>q \<in> set (requests (get_payments n max_time now api location_id start_time
                            bookmarked_cursor w)).
      map_of q ''end_time'' = Some (PStr (strftime DATETIME_PARSE (fst (now w)))))
   \<and> (\<forall>q \<in> set (requests (get_cash_drawer_shifts n max_time now api location_id start_time
                              bookmarked_cursor w)).
        map_of q ''end_time'' = Some (PStr (strftime DATETIME_PARSE (fst (now w)))))
   \<and> (\<forall>q \<in> set (requests (get_payouts n max_time now api location_id start_time
                              bookmarked_cursor w)).
        map_of q ''end_time'' = Some (PStr (strftime DATETIME_PARSE (fst (now w)))))
   \<and> ((\<forall>q u. snd (api q u) = u)
     \<longrightarrow> world (get_payments n max_time now api location_id start_time bookmarked_cursor w)
           = snd (now w)
         \<and> world (get_cash_drawer_shifts n max_time now api location_id start_time
                    bookmarked_cursor w) = snd (now w)
         \<and> world (get_payouts n max_time now api location_id start_time bookmarked_cursor w)
           = snd (now w))"
proof (intro conjI ballI impI)
  obtain t w1 where n1: "now w = (t, w1)" by (cases "now w")
  {
    fix q
    assume "q \<in> set (requests (get_payments n max_time now api location_id start_time
                                bookmarked_cursor w))"
    then show "map_of q ''end_time'' = Some (PStr (strftime DATETIME_PARSE (fst (now w))))"
      by (simp add: get_payments_def n1 Let_def window_run_end_time del: window_loop.simps)
  }
  {
    fix q
    assume "q \<in> set (requests (get_cash_drawer_shifts n max_time now api location_id
                                start_time bookmarked_cursor w))"
    then show "map_of q ''end_time'' = Some (PStr (strftime DATETIME_PARSE (fst (now w))))"
      by (simp add: get_cash_drawer_shifts_def n1 Let_def window_run_end_time
          del: window_loop.simps)
  }
  {
    fix q
    assume "q \<in> set (requests (get_payouts n max_time now api location_id start_time
                                bookmarked_cursor w))"
    then show "map_of q ''end_time'' = Some (PStr (strftime DATETIME_PARSE (fst (now w))))"
      by (simp add: get_payouts_def n1 Let_def window_run_end_time del: window_loop.simps)
  }
  assume "\<forall>q u. snd (api q u) = u"
  then have quiet: "\<And>kw u. snd (retried max_time (\<lambda>bdy. api kw) PNone u) = u"
    by (intro retried_world) simp
  show "world (get_payments n max_time now api location_id start_time bookmarked_cursor w)
          = snd (now w)"
    by (simp add: get_payments_def n1 Let_def window_loop_world [OF quiet]
        del: window_loop.simps)
  show "world (get_cash_drawer_shifts n max_time now api location_id start_time
                 bookmarked_cursor w) = snd (now w)"
    by (simp add: get_cash_drawer_shifts_def n1 Let_def window_loop_world [OF quiet]
        del: window_loop.simps)
  show "world (get_payouts n max_time now api location_id start_time bookmarked_cursor w)
          = snd (now w)"
    by (simp add: get_payouts_def n1 Let_def window_loop_world [OF quiet]
        del: window_loop.simps)
qed

lemma ord2ymd_2024_01_01: "ord2ymd 738886 = (2024, 1, 1)"
  by (simp add: ord2ymd_def Let_def DAYS_BEFORE_MONTH_def DAYS_IN_MONTH_def)

lemma strftime_2024_01_01:
  "strftime DATETIME_PARSE (datetime 2024 1 1 0 0 0 0) = ''2024-01-01T00:00:00Z''"
  by (simp add: datetime_2024_01_01 strftime_def usec_per_day_def ord2ymd_2024_01_01
      year_digits_def digits_2 digits_4)

lemma two_page_payments_requests:
  "length (requests (get_payments 5 0 tick (two_page_server ''payments'') loc st PNone w)) = 2"
  by (simp add: get_payments_def tick_def eval_nat_numeral retried_def
      retryable_v2_method_def v2_method_def two_page_server_def page_def window_kwargs_def
      dict_get_def dict_get_default_def initial_cursor_def Let_def)

lemma two_page_shifts_requests:
  "length (requests (get_cash_drawer_shifts 5 0 tick (two_page_server ''items'') loc st PNone w))
     = 2"
  by (simp add: get_cash_drawer_shifts_def tick_def eval_nat_numeral retried_def
      retryable_v2_method_def v2_method_def two_page_server_def page_def window_kwargs_def
      dict_get_def dict_get_default_def initial_cursor_def Let_def)

lemma two_page_payouts_requests:
  "length (requests (get_payouts 5 0 tick (two_page_server ''payouts'') loc st PNone w)) = 2"
  by (simp add: get_payouts_def tick_def eval_nat_numeral retried_def
      retryable_v2_method_def v2_method_def two_page_server_def page_def window_kwargs_def
      dict_get_def dict_get_default_def initial_cursor_def Let_def)

theorem end_time_fixed_for_the_run_witness:
  "map_of (requests (get_payments 5 0 tick (two_page_server ''payments'') (PStr ''L1'')
                       (PStr ''2023-01-01T00:00:00Z'') PNone (datetime 2024 1 1 0 0 0 0)) ! 1)
     ''end_time'' = Some (PStr ''2024-01-01T00:00:00Z'')
   \<and> map_of (requests (get_cash_drawer_shifts 5 0 tick (two_page_server ''items'')
                         (PStr ''L1'') (PStr ''2023-01-01T00:00:00Z'') PNone
                         (datetime 2024 1 1 0 0 0 0)) ! 1)
       ''end_time'' = Some (PStr ''2024-01-01T00:00:00Z'')
   \<and> map_of (requests (get_payouts 5 0 tick (two_page_server ''payouts'') (PStr ''L1'')
                         (PStr ''2023-01-01T00:00:00Z'') PNone (datetime 2024 1 1 0 0 0 0)) ! 1)
       ''end_time'' = Some (PStr ''2024-01-01T00:00:00Z'')
   \<and> world (get_payments 5 0 tick (still_server ''payments'') (PStr ''L1'')
              (PStr ''2023-01-01T00:00:00Z'') PNone (datetime 2024 1 1 0 0 0 0))
     = datetime 2024 1 1 0 0 0 0 + 1"
proof -
  let ?t = "datetime 2024 1 1 0 0 0 0"
  let ?P = "get_payments 5 0 tick (two_page_server ''payments'') (PStr ''L1'')
              (PStr ''2023-01-01T00:00:00Z'') PNone ?t"
  let ?S = "get_cash_drawer_shifts 5 0 tick (two_page_server ''items'') (PStr ''L1'')
              (PStr ''2023-01-01T00:00:00Z'') PNone ?t"
  let ?O = "get_payouts 5 0 tick (two_page_server ''payouts'') (PStr ''L1'')
              (PStr ''2023-01-01T00:00:00Z'') PNone ?t"
  note payments = end_time_fixed_for_the_run
    [where n = 5 and max_time = 0 and now = tick and api = "two_page_server ''payments''"
       and location_id = "PStr ''L1''" and start_time = "PStr ''2023-01-01T00:00:00Z''"
       and bookmarked_cursor = PNone and w = ?t]
  note shifts = end_time_fixed_for_the_run
    [where n = 5 and max_time = 0 and now = tick and api = "two_page_server ''items''"
       and location_id = "PStr ''L1''" and start_time = "PStr ''2023-01-01T00:00:00Z''"
       and bookmarked_cursor = PNone and w = ?t]
  note payouts = end_time_fixed_for_the_run
    [where n = 5 and max_time = 0 and now = tick and api = "two_page_server ''payouts''"
       and location_id = "PStr ''L1''" and start_time = "PStr ''2023-01-01T00:00:00Z''"
       and bookmarked_cursor = PNone and w = ?t]
  note still = end_time_fixed_for_the_run
    [where n = 5 and max_time = 0 and now = tick and api = "still_server ''payments''"
       and location_id = "PStr ''L1''" and start_time = "PStr ''2023-01-01T00:00:00Z''"
       and bookmarked_cursor = PNone and w = ?t]
  have e: "strftime DATETIME_PARSE (fst (tick ?t)) = ''2024-01-01T00:00:00Z''"
    by (simp add: tick_def strftime_2024_01_01)
  have "requests ?P ! 1 \<in> set (requests ?P)"
    by (simp add: two_page_payments_requests)
  with payments have 1: "map_of (requests ?P ! 1) ''end_time''
                           = Some (PStr ''2024-01-01T00:00:00Z'')"
    unfolding e by blast
  have "requests ?S ! 1 \<in> set (requests ?S)"
    by (simp add: two_page_shifts_requests)
  with shifts have 2: "map_of (requests ?S ! 1) ''end_time''
                         = Some (PStr ''2024-01-01T00:00:00Z'')"
    unfolding e by blast
  have "requests ?O ! 1 \<in> set (requests ?O)"
    by (simp add: two_page_payouts_requests)
  with payouts have 3: "map_of (requests ?O ! 1) ''end_time''
                          = Some (PStr ''2024-01-01T00:00:00Z'')"
    unfolding e by blast
  have "\<forall>q u. snd (still_server ''payments'' q u) = u"
    by (simp add: still_server_def)
  with still have "world (get_payments 5 0 tick (still_server ''payments'') (PStr ''L1'')
              (PStr ''2023-01-01T00:00:00Z'') PNone ?t) = snd (tick ?t)"
    by blast
  then have 4: "world (get_payments 5 0 tick (still_server ''payments'') (PStr ''L1'')
              (PStr ''2023-01-01T00:00:00Z'') PNone ?t) = ?t + 1"
    by (simp add: tick_def)
  from 1 2 3 4 show ?thesis
    by blast
qed

end
